theory Spec2Isabelle
  imports Complex_Main
begin

section \<open>Tensor values\<close>

text \<open>
  The layer works on float tensors of the tensor library (the adjacency matrix is taken
  to be a float tensor, so that \<open>A.float()\<close> is \<open>A\<close>). An element is modelled as a
  finite real number or one of the three special values of the float format. Finite
  values are exact reals: rounding, overflow of a finite result and the sign of zero are
  not modelled. The special values follow the float format's rules: a sum or product with
  a not-a-number is a not-a-number, \<open>\<infinity> + (-\<infinity>)\<close> and \<open>0 \<cdot> \<infinity>\<close> are not-a-number.

  In the float format the sum or product of two finite values can be \<open>\<plusminus>\<infinity>\<close>, which
  \<open>fadd\<close> and \<open>fmul\<close> do not show. No statement below infers that a sum or a product
  is finite from its operands being finite: where a result needs a computed tensor to be
  finite, that is a hypothesis on the tensor itself.
\<close>

datatype fl = Fin real | PInf | NInf | NaN

fun fadd :: "fl \<Rightarrow> fl \<Rightarrow> fl" where
  "fadd NaN y = NaN"
| "fadd (Fin a) NaN = NaN"
| "fadd PInf NaN = NaN"
| "fadd NInf NaN = NaN"
| "fadd (Fin a) (Fin b) = Fin (a + b)"
| "fadd (Fin a) PInf = PInf"
| "fadd (Fin a) NInf = NInf"
| "fadd PInf (Fin b) = PInf"
| "fadd PInf PInf = PInf"
| "fadd PInf NInf = NaN"
| "fadd NInf (Fin b) = NInf"
| "fadd NInf PInf = NaN"
| "fadd NInf NInf = NInf"

fun fmul :: "fl \<Rightarrow> fl \<Rightarrow> fl" where
  "fmul NaN y = NaN"
| "fmul (Fin a) NaN = NaN"
| "fmul PInf NaN = NaN"
| "fmul NInf NaN = NaN"
| "fmul (Fin a) (Fin b) = Fin (a * b)"
| "fmul (Fin a) PInf = (if a = 0 then NaN else if 0 < a then PInf else NInf)"
| "fmul (Fin a) NInf = (if a = 0 then NaN else if 0 < a then NInf else PInf)"
| "fmul PInf (Fin b) = (if b = 0 then NaN else if 0 < b then PInf else NInf)"
| "fmul NInf (Fin b) = (if b = 0 then NaN else if 0 < b then NInf else PInf)"
| "fmul PInf PInf = PInf"
| "fmul PInf NInf = NInf"
| "fmul NInf PInf = NInf"
| "fmul NInf NInf = PInf"

text \<open>
  \<open>torch.pow(x, -0.5)\<close> on one element: the reciprocal square root. Zero gives
  \<open>+\<infinity>\<close> (a division by zero that does not raise), a negative number gives
  not-a-number, \<open>+\<infinity>\<close> gives zero. At \<open>-\<infinity>\<close> the value is taken as the one of
  \<open>1 / sqrt\<close>, a not-a-number (the float standard's \<open>pow\<close> gives 0 there); no result
  below depends on that value.
\<close>

fun pow_neg_half :: "fl \<Rightarrow> fl" where
  "pow_neg_half (Fin x) =
     (if 0 < x then Fin (x powr (- 1 / 2)) else if x = 0 then PInf else NaN)"
| "pow_neg_half PInf = Fin 0"
| "pow_neg_half NInf = NaN"
| "pow_neg_half NaN = NaN"

text \<open>\<open>F.relu\<close> on one element: \<open>max(x, 0)\<close>, which keeps a not-a-number.\<close>

fun relu1 :: "fl \<Rightarrow> fl" where
  "relu1 (Fin x) = Fin (max x 0)"
| "relu1 PInf = PInf"
| "relu1 NInf = Fin 0"
| "relu1 NaN = NaN"

fun is_fin :: "fl \<Rightarrow> bool" where
  "is_fin (Fin x) = True"
| "is_fin PInf = False"
| "is_fin NInf = False"
| "is_fin NaN = False"

text \<open>The comparison \<open>x \<ge> 0\<close> of the float format: false for a not-a-number.\<close>

fun ge0 :: "fl \<Rightarrow> bool" where
  "ge0 (Fin x) = (0 \<le> x)"
| "ge0 PInf = True"
| "ge0 NInf = False"
| "ge0 NaN = False"

text \<open>The comparison \<open>x > 0\<close> of the float format.\<close>

fun gt0 :: "fl \<Rightarrow> bool" where
  "gt0 (Fin x) = (0 < x)"
| "gt0 PInf = True"
| "gt0 NInf = False"
| "gt0 NaN = False"

text \<open>
  A 2-D tensor: its rows, and its number of columns (kept apart from the rows, since a
  tensor of shape \<open>(0, m)\<close> has no row to read \<open>m\<close> from). \<open>size0\<close> and \<open>ncols\<close> are
  \<open>size(0)\<close> and \<open>size(1)\<close>. A 1-D tensor is a list.
\<close>

record tensor =
  ncols :: nat
  rws :: "fl list list"

definition size0 :: "tensor \<Rightarrow> nat" where
  "size0 t = length (rws t)"

definition wf_tensor :: "tensor \<Rightarrow> bool" where
  "wf_tensor t = list_all (\<lambda>r. length r = ncols t) (rws t)"

definition entry :: "tensor \<Rightarrow> nat \<Rightarrow> nat \<Rightarrow> fl" where
  "entry t i j = rws t ! i ! j"

definition all_fin :: "tensor \<Rightarrow> bool" where
  "all_fin t = list_all (list_all is_fin) (rws t)"

text \<open>Every entry is \<open>\<ge> 0\<close> or a not-a-number.\<close>

definition ge0_or_nan :: "fl \<Rightarrow> bool" where
  "ge0_or_nan x = (ge0 x \<or> x = NaN)"

definition nonneg_or_nan :: "tensor \<Rightarrow> bool" where
  "nonneg_or_nan t = list_all (list_all ge0_or_nan) (rws t)"

text \<open>
  The error raised for sizes that do not fit, and the one raised for a negative size
  (both are \<open>RuntimeError\<close> in the tensor library).
\<close>

datatype error = ShapeError | NegativeDimension

section \<open>The tensor library's operations\<close>

text \<open>\<open>torch.eye(n)\<close>.\<close>

definition eye :: "nat \<Rightarrow> tensor" where
  "eye n = \<lparr>ncols = n,
            rws = map (\<lambda>i. map (\<lambda>j. if i = j then Fin 1 else Fin 0) [0..<n]) [0..<n]\<rparr>"

text \<open>\<open>torch.ones(n, m)\<close> on Python integers: a negative size raises.\<close>

definition ones_t :: "nat \<Rightarrow> nat \<Rightarrow> tensor" where
  "ones_t n m = \<lparr>ncols = m, rws = replicate n (replicate m (Fin 1))\<rparr>"

definition ones :: "int \<Rightarrow> int \<Rightarrow> error + tensor" where
  "ones n m =
     (if n < 0 \<or> m < 0 then Inl NegativeDimension else Inr (ones_t (nat n) (nat m)))"

text \<open>
  \<open>torch.rand(n, m)\<close>: the drawn numbers are an argument, \<open>rnd i j\<close> for the entry
  \<open>(i, j)\<close>; they are finite numbers.
\<close>

definition rand_t :: "nat \<Rightarrow> nat \<Rightarrow> (nat \<Rightarrow> nat \<Rightarrow> real) \<Rightarrow> tensor" where
  "rand_t n m rnd =
     \<lparr>ncols = m, rws = map (\<lambda>i. map (\<lambda>j. Fin (rnd i j)) [0..<m]) [0..<n]\<rparr>"

definition rand :: "int \<Rightarrow> int \<Rightarrow> (nat \<Rightarrow> nat \<Rightarrow> real) \<Rightarrow> error + tensor" where
  "rand n m rnd =
     (if n < 0 \<or> m < 0 then Inl NegativeDimension else Inr (rand_t (nat n) (nat m) rnd))"

text \<open>
  Broadcasting of one dimension: two sizes are compatible when they are equal or one of
  them is 1; a dimension of size 1 is read at index 0 for every index of the result.
\<close>

definition bdim :: "nat \<Rightarrow> nat \<Rightarrow> nat option" where
  "bdim a b = (if a = b then Some a else if a = 1 then Some b
               else if b = 1 then Some a else None)"

definition bidx :: "nat \<Rightarrow> nat \<Rightarrow> nat" where
  "bidx n i = (if n = 1 then 0 else i)"

text \<open>\<open>a + b\<close> on two 2-D tensors, with broadcasting.\<close>

definition tensor_add :: "tensor \<Rightarrow> tensor \<Rightarrow> error + tensor" where
  "tensor_add a b =
     (case bdim (size0 a) (size0 b) of
        None \<Rightarrow> Inl ShapeError
      | Some r \<Rightarrow>
         (case bdim (ncols a) (ncols b) of
            None \<Rightarrow> Inl ShapeError
          | Some c \<Rightarrow>
              Inr \<lparr>ncols = c,
                   rws = map (\<lambda>i. map (\<lambda>j.
                           fadd (entry a (bidx (size0 a) i) (bidx (ncols a) j))
                                (entry b (bidx (size0 b) i) (bidx (ncols b) j)))
                         [0..<c]) [0..<r]\<rparr>))"

text \<open>The sum of a list of elements, and the product of a row with a column.\<close>

fun fsum :: "fl list \<Rightarrow> fl" where
  "fsum [] = Fin 0"
| "fsum (x # xs) = fadd x (fsum xs)"

definition dot :: "fl list \<Rightarrow> fl list \<Rightarrow> fl" where
  "dot xs ys = fsum (map2 fmul xs ys)"

definition col :: "tensor \<Rightarrow> nat \<Rightarrow> fl list" where
  "col t j = map (\<lambda>r. r ! j) (rws t)"

text \<open>The matrix product of shapes \<open>(n, k)\<close> and \<open>(k, m)\<close>, without the check of \<open>k\<close>.\<close>

definition mm :: "tensor \<Rightarrow> tensor \<Rightarrow> tensor" where
  "mm a b = \<lparr>ncols = ncols b,
             rws = map (\<lambda>r. map (\<lambda>j. dot r (col b j)) [0..<ncols b]) (rws a)\<rparr>"

text \<open>\<open>torch.matmul(a, b)\<close> on two 2-D tensors: raises when the inner sizes differ.\<close>

definition matmul :: "tensor \<Rightarrow> tensor \<Rightarrow> error + tensor" where
  "matmul a b = (if ncols a \<noteq> size0 b then Inl ShapeError else Inr (mm a b))"

text \<open>\<open>torch.diag\<close> of a 2-D tensor: the 1-D tensor of its diagonal.\<close>

definition diag :: "tensor \<Rightarrow> fl list" where
  "diag t = map (\<lambda>i. entry t i i) [0..<min (size0 t) (ncols t)]"

text \<open>\<open>torch.diag_embed\<close> of a 1-D tensor: the square matrix with it on the diagonal.\<close>

definition diag_embed :: "fl list \<Rightarrow> tensor" where
  "diag_embed v =
     \<lparr>ncols = length v,
      rws = map (\<lambda>i. map (\<lambda>j. if i = j then v ! i else Fin 0) [0..<length v])
              [0..<length v]\<rparr>"

text \<open>\<open>torch.pow(t, -0.5)\<close> and \<open>F.relu(t)\<close>: element by element.\<close>

definition pow_m05 :: "tensor \<Rightarrow> tensor" where
  "pow_m05 t = \<lparr>ncols = ncols t, rws = map (map pow_neg_half) (rws t)\<rparr>"

definition relu :: "tensor \<Rightarrow> tensor" where
  "relu t = \<lparr>ncols = ncols t, rws = map (map relu1) (rws t)\<rparr>"

section \<open>The layer\<close>

text \<open>The fields of a \<open>GCNLayer\<close> object, \<open>self.A\<close> as \<open>self_A\<close>.\<close>

record layer =
  self_input_dim :: int
  self_output_dim :: int
  self_A :: tensor
  self_A_hat :: tensor
  self_ones :: tensor
  self_D :: tensor
  self_D_neg_sqrt :: tensor
  self_W :: tensor

text \<open>
  \<open>GCNLayer.__init__\<close>, in the order of its statements; a statement that raises ends
  the construction. \<open>self.D\<close> is assigned three times; the record holds the last value.
\<close>

definition init :: "int \<Rightarrow> int \<Rightarrow> tensor \<Rightarrow> (nat \<Rightarrow> nat \<Rightarrow> real) \<Rightarrow> error + layer" where
  "init input_dim output_dim A rnd =
     (case tensor_add A (eye (size0 A)) of
        Inl e \<Rightarrow> Inl e
      | Inr A_hat \<Rightarrow>
     (case ones input_dim input_dim of
        Inl e \<Rightarrow> Inl e
      | Inr os \<Rightarrow>
     (case matmul A os of
        Inl e \<Rightarrow> Inl e
      | Inr D1 \<Rightarrow>
     (let D2 = diag D1;
          D3 = diag_embed D2;
          D_neg_sqrt = diag_embed (diag (pow_m05 D3))
      in case rand input_dim output_dim rnd of
        Inl e \<Rightarrow> Inl e
      | Inr W \<Rightarrow>
          Inr \<lparr>self_input_dim = input_dim, self_output_dim = output_dim,
               self_A = A, self_A_hat = A_hat, self_ones = os, self_D = D3,
               self_D_neg_sqrt = D_neg_sqrt, self_W = W\<rparr>))))"

text \<open>\<open>GCNLayer.forward\<close>: the inner product of each line is evaluated first.\<close>

definition forward :: "layer \<Rightarrow> tensor \<Rightarrow> error + tensor" where
  "forward self X =
     (case matmul (self_A_hat self) (self_D_neg_sqrt self) of
        Inl e \<Rightarrow> Inl e
      | Inr t1 \<Rightarrow>
     (case matmul (self_D_neg_sqrt self) t1 of
        Inl e \<Rightarrow> Inl e
      | Inr support_1 \<Rightarrow>
     (case matmul X (self_W self) of
        Inl e \<Rightarrow> Inl e
      | Inr t2 \<Rightarrow>
     (case matmul support_1 t2 of
        Inl e \<Rightarrow> Inl e
      | Inr support_2 \<Rightarrow> Inr (relu support_2)))))"

section \<open>The layer object in the store\<close>

text \<open>
  Tensors are objects of the interpreter: a name or a field holds a reference to one, two
  references may be the same, and a library call could write into the tensor it is handed.
  The store is the list of the tensors allocated so far, a reference is an index into
  it, and the layer object holds a reference for each of its tensor fields.
\<close>

type_synonym addr = nat

record refs =
  attr_input_dim :: int
  attr_output_dim :: int
  ref_A :: addr
  ref_A_hat :: addr
  ref_ones :: addr
  ref_D :: addr
  ref_D_neg_sqrt :: addr
  ref_W :: addr

record pystate =
  cells :: "tensor list"
  obj :: refs

text \<open>
  \<open>torch.matmul\<close> and \<open>F.relu\<close> (called without \<open>inplace\<close>) read their arguments and
  return a new tensor; a \<open>matmul\<close> that raises allocates nothing.
\<close>

definition alloc :: "tensor \<Rightarrow> pystate \<Rightarrow> addr \<times> pystate" where
  "alloc t s = (length (cells s), s\<lparr>cells := cells s @ [t]\<rparr>)"

definition matmul_h :: "addr \<Rightarrow> addr \<Rightarrow> pystate \<Rightarrow> (error + addr) \<times> pystate" where
  "matmul_h a b s =
     (case matmul (cells s ! a) (cells s ! b) of
        Inl e \<Rightarrow> (Inl e, s)
      | Inr t \<Rightarrow> (case alloc t s of (c, s') \<Rightarrow> (Inr c, s')))"

definition relu_h :: "addr \<Rightarrow> pystate \<Rightarrow> (error + addr) \<times> pystate" where
  "relu_h a s = (case alloc (relu (cells s ! a)) s of (c, s') \<Rightarrow> (Inr c, s'))"

text \<open>
  \<open>GCNLayer.forward\<close> on the store, statement by statement: \<open>X\<close> is the reference the
  caller passes, the fields are read from the object, \<open>support_1\<close>, \<open>support_2\<close> and \<open>H\<close>
  are local names, and the reference in \<open>H\<close> is returned. An exception leaves the store
  as it is at the call that raised.
\<close>

definition forward_h :: "addr \<Rightarrow> pystate \<Rightarrow> (error + addr) \<times> pystate" where
  "forward_h X s =
     (case matmul_h (ref_A_hat (obj s)) (ref_D_neg_sqrt (obj s)) s of
        (Inl e, s1) \<Rightarrow> (Inl e, s1)
      | (Inr t1, s1) \<Rightarrow>
     (case matmul_h (ref_D_neg_sqrt (obj s)) t1 s1 of
        (Inl e, s2) \<Rightarrow> (Inl e, s2)
      | (Inr support_1, s2) \<Rightarrow>
     (case matmul_h X (ref_W (obj s2)) s2 of
        (Inl e, s3) \<Rightarrow> (Inl e, s3)
      | (Inr t2, s3) \<Rightarrow>
     (case matmul_h support_1 t2 s3 of
        (Inl e, s4) \<Rightarrow> (Inl e, s4)
      | (Inr support_2, s4) \<Rightarrow> relu_h support_2 s4))))"

text \<open>A sequence of \<open>forward\<close> calls on one object, with the result of each.\<close>

fun run_forward_h :: "addr list \<Rightarrow> pystate \<Rightarrow> (error + addr) list \<times> pystate" where
  "run_forward_h [] s = ([], s)"
| "run_forward_h (X # Xs) s =
     (case forward_h X s of
        (r, s') \<Rightarrow> (case run_forward_h Xs s' of (rs, s'') \<Rightarrow> (r # rs, s'')))"

text \<open>
  The tensors the fields of the object refer to; the tensor a returned reference refers
  to; the references of the object are allocated; the store right after the construction
  of a layer, with further tensors \<open>Xs\<close> of the caller.
\<close>

definition layer_of :: "pystate \<Rightarrow> layer" where
  "layer_of s =
     \<lparr>self_input_dim = attr_input_dim (obj s), self_output_dim = attr_output_dim (obj s),
      self_A = cells s ! ref_A (obj s), self_A_hat = cells s ! ref_A_hat (obj s),
      self_ones = cells s ! ref_ones (obj s), self_D = cells s ! ref_D (obj s),
      self_D_neg_sqrt = cells s ! ref_D_neg_sqrt (obj s), self_W = cells s ! ref_W (obj s)\<rparr>"

definition result_value :: "pystate \<Rightarrow> error + addr \<Rightarrow> error + tensor" where
  "result_value s r = (case r of Inl e \<Rightarrow> Inl e | Inr a \<Rightarrow> Inr (cells s ! a))"

definition refs_ok :: "pystate \<Rightarrow> bool" where
  "refs_ok s =
     (ref_A (obj s) < length (cells s) \<and> ref_A_hat (obj s) < length (cells s)
      \<and> ref_ones (obj s) < length (cells s) \<and> ref_D (obj s) < length (cells s)
      \<and> ref_D_neg_sqrt (obj s) < length (cells s) \<and> ref_W (obj s) < length (cells s))"

definition store_of :: "layer \<Rightarrow> tensor list \<Rightarrow> pystate" where
  "store_of L Xs =
     \<lparr>cells = [self_A L, self_A_hat L, self_ones L, self_D L, self_D_neg_sqrt L, self_W L] @ Xs,
      obj = \<lparr>attr_input_dim = self_input_dim L, attr_output_dim = self_output_dim L,
             ref_A = 0, ref_A_hat = 1, ref_ones = 2, ref_D = 3, ref_D_neg_sqrt = 4,
             ref_W = 5\<rparr>\<rparr>"

section \<open>The computation in the words of the specification\<close>

text \<open>
  The row sums of \<open>A\<close>, the sum \<open>A + I\<close> entry by entry, the diagonal matrix of the inverse
  square roots of the row sums, and the three steps \<open>S\<close>, \<open>P\<close>, \<open>H\<close> of the forward pass.
\<close>

definition row_sums :: "tensor \<Rightarrow> fl list" where
  "row_sums A = map fsum (rws A)"

definition madd :: "tensor \<Rightarrow> tensor \<Rightarrow> tensor" where
  "madd a b = \<lparr>ncols = ncols a, rws = map2 (map2 fadd) (rws a) (rws b)\<rparr>"

definition spec_D_neg_sqrt :: "tensor \<Rightarrow> tensor" where
  "spec_D_neg_sqrt A = diag_embed (map pow_neg_half (row_sums A))"

definition spec_forward :: "tensor \<Rightarrow> tensor \<Rightarrow> tensor \<Rightarrow> tensor" where
  "spec_forward A W X =
     (let S = mm (spec_D_neg_sqrt A) (mm (madd A (eye (size0 A))) (spec_D_neg_sqrt A));
          P = mm X W;
          H = relu (mm S P)
      in H)"

definition scale :: "real \<Rightarrow> tensor \<Rightarrow> tensor" where
  "scale c t = \<lparr>ncols = ncols t, rws = map (map (fmul (Fin c))) (rws t)\<rparr>"

section \<open>Example inputs\<close>

text \<open>
  The adjacency matrix and the feature matrix of the example cell, a feature matrix with
  a row missing, an adjacency matrix with one column, and a draw of the weights in which
  every number is \<open>1/2\<close>.
\<close>

definition A_ex :: tensor where
  "A_ex = \<lparr>ncols = 3,
           rws = [[Fin 1, Fin 0, Fin 0], [Fin 0, Fin 1, Fin 1], [Fin 0, Fin 1, Fin 1]]\<rparr>"

definition X_ex :: tensor where
  "X_ex = \<lparr>ncols = 3,
           rws = [[Fin 1, Fin 2, Fin 3], [Fin 4, Fin 5, Fin 6], [Fin 7, Fin 8, Fin 9]]\<rparr>"

definition X_short :: tensor where
  "X_short = \<lparr>ncols = 3, rws = [[Fin 1, Fin 2, Fin 3], [Fin 4, Fin 5, Fin 6]]\<rparr>"

definition A_col :: tensor where
  "A_col = \<lparr>ncols = 1, rws = [[Fin 1], [Fin 1]]\<rparr>"

definition rnd_half :: "nat \<Rightarrow> nat \<Rightarrow> real" where
  "rnd_half i j = 1 / 2"

text \<open>
  A graph of one node without an edge, and the layer constructed from it with
  \<open>input_dim = output_dim = 1\<close>; three feature matrices, one of them with an infinite
  entry; the layer constructed from the \<open>2\<times>2\<close> identity matrix with \<open>output_dim = 1\<close>.
\<close>

definition A_iso :: tensor where
  "A_iso = \<lparr>ncols = 1, rws = [[Fin 0]]\<rparr>"

definition X_zero :: tensor where
  "X_zero = \<lparr>ncols = 1, rws = [[Fin 0]]\<rparr>"

definition X_neg :: tensor where
  "X_neg = \<lparr>ncols = 1, rws = [[Fin (- 1)]]\<rparr>"

definition X_inf :: tensor where
  "X_inf = \<lparr>ncols = 2, rws = [[Fin 0, Fin 0], [PInf, Fin 0]]\<rparr>"

definition L_iso :: layer where
  "L_iso = \<lparr>self_input_dim = 1, self_output_dim = 1, self_A = A_iso,
            self_A_hat = \<lparr>ncols = 1, rws = [[Fin 1]]\<rparr>,
            self_ones = \<lparr>ncols = 1, rws = [[Fin 1]]\<rparr>,
            self_D = \<lparr>ncols = 1, rws = [[Fin 0]]\<rparr>,
            self_D_neg_sqrt = \<lparr>ncols = 1, rws = [[PInf]]\<rparr>,
            self_W = \<lparr>ncols = 1, rws = [[Fin (1 / 2)]]\<rparr>\<rparr>"

definition L_eye2 :: layer where
  "L_eye2 = \<lparr>self_input_dim = 2, self_output_dim = 1, self_A = eye 2,
             self_A_hat = \<lparr>ncols = 2, rws = [[Fin 2, Fin 0], [Fin 0, Fin 2]]\<rparr>,
             self_ones = \<lparr>ncols = 2, rws = [[Fin 1, Fin 1], [Fin 1, Fin 1]]\<rparr>,
             self_D = \<lparr>ncols = 2, rws = [[Fin 1, Fin 0], [Fin 0, Fin 1]]\<rparr>,
             self_D_neg_sqrt = \<lparr>ncols = 2, rws = [[Fin 1, Fin 0], [Fin 0, Fin 1]]\<rparr>,
             self_W = \<lparr>ncols = 1, rws = [[Fin (1 / 2)], [Fin (1 / 2)]]\<rparr>\<rparr>"

text \<open>
  The store right after the construction of that layer, with the two feature matrices
  \<open>X_neg\<close> and \<open>X_zero\<close> of the caller at the references 6 and 7.
\<close>

definition s_iso :: pystate where
  "s_iso = store_of L_iso [X_neg, X_zero]"

section \<open>Lemmas\<close>

subsection \<open>Arithmetic of the elements\<close>

text \<open>
  Addition is associative and commutative with unit 0, so the order in which a product of
  matrices sums its terms does not matter here. A value that is not finite stays not
  finite in every sum and product.
\<close>

lemma fadd_zero_left: "fadd (Fin 0) x = x" by (cases x) auto

lemma fadd_zero_right: "fadd x (Fin 0) = x" by (cases x) auto

lemma fadd_assoc: "fadd (fadd x y) z = fadd x (fadd y z)"
  by (cases x; cases y; cases z) auto

lemma fmul_one_right: "fmul x (Fin 1) = x" by (cases x) auto

lemma fmul_zero_fin: "is_fin x \<Longrightarrow> fmul (Fin 0) x = Fin 0" by (cases x) auto

lemma fmul_fin_zero: "is_fin x \<Longrightarrow> fmul x (Fin 0) = Fin 0" by (cases x) auto

lemma fadd_commute: "fadd x y = fadd y x"
  by (cases x; cases y) auto

lemma fadd_left_commute: "fadd x (fadd y z) = fadd y (fadd x z)"
  by (cases x; cases y; cases z) auto

lemma pow_neg_half_fin: "gt0 x \<Longrightarrow> is_fin (pow_neg_half x)"
  by (cases x) auto

lemma powr_neg_half:
  assumes "0 < (x::real)"
  shows "x powr (- (1 / 2)) = 1 / sqrt x"
proof -
  have "x powr (- (1 / 2)) = inverse (x powr (1 / 2))"
    by (rule powr_minus)
  also have "x powr (1 / 2) = sqrt x"
    using assms by (intro powr_half_sqrt) simp
  finally show ?thesis by (simp only: inverse_eq_divide)
qed

lemma pow_neg_half_gt0:
  "gt0 d \<Longrightarrow> pow_neg_half d = (case d of Fin x \<Rightarrow> Fin (1 / sqrt x) | _ \<Rightarrow> Fin 0)"
  by (cases d) (simp_all add: powr_neg_half)





lemma fmul_one_left: "fmul (Fin 1) x = x"
  by (cases x) auto

subsection \<open>Sums and products of rows\<close>

lemma fsum_append: "fsum (xs @ ys) = fadd (fsum xs) (fsum ys)"
  by (induction xs) (auto simp: fadd_zero_left fadd_assoc)

lemma map2_fmul_ones: "length r = n \<Longrightarrow> map2 fmul r (replicate n (Fin 1)) = r"
  by (induction r arbitrary: n) (auto simp: fmul_one_right)

lemma fsum_map2_fadd:
  "length xs = length ys \<Longrightarrow> fsum (map2 fadd xs ys) = fadd (fsum xs) (fsum ys)"
proof (induction xs ys rule: list_induct2)
  case Nil
  show ?case by simp
next
  case (Cons x xs y ys)
  then show ?case by (simp add: fadd_assoc fadd_left_commute)
qed

lemma fsum_unit_row:
  "fsum (map (\<lambda>j. if i = j then c else Fin 0) [0..<n]) = (if i < n then c else Fin 0)"
  by (induction n) (auto simp: fsum_append fadd_zero_left fadd_zero_right)



lemma fsum_unit_col:
  "fsum (map (\<lambda>k. if k = j then c else Fin 0) [0..<n]) = (if j < n then c else Fin 0)"
  using fsum_unit_row [of j c n] by (simp add: eq_commute [of j])

lemma map2_same: "map2 f xs xs = map (\<lambda>x. f x x) xs"
  by (induction xs) auto

lemma dot_unit_left:
  assumes "list_all is_fin ys" "length ys = n" "i < n"
  shows "dot (map (\<lambda>k. if i = k then c else Fin 0) [0..<n]) ys = fmul c (ys ! i)"
proof -
  have "map2 fmul (map (\<lambda>k. if i = k then c else Fin 0) [0..<n]) ys
        = map (\<lambda>k. if i = k then fmul c (ys ! i) else Fin 0) [0..<n]"
    using assms(1,2)
    by (intro nth_equalityI) (auto simp: list_all_length fmul_zero_fin)
  then show ?thesis
    using assms(3) by (simp add: dot_def fsum_unit_row)
qed

lemma dot_unit_right:
  assumes "list_all is_fin xs" "length xs = n" "j < n"
  shows "dot xs (map (\<lambda>k. if k = j then c else Fin 0) [0..<n]) = fmul (xs ! j) c"
proof -
  have "map2 fmul xs (map (\<lambda>k. if k = j then c else Fin 0) [0..<n])
        = map (\<lambda>k. if k = j then fmul (xs ! j) c else Fin 0) [0..<n]"
    using assms(1,2)
    by (intro nth_equalityI) (auto simp: list_all_length fmul_fin_zero)
  then show ?thesis
    using assms(3) by (simp add: dot_def fsum_unit_col)
qed

subsection \<open>Shapes and entries\<close>

lemma size0_eye: "size0 (eye n) = n" by (simp add: size0_def eye_def)

lemma ncols_eye: "ncols (eye n) = n" by (simp add: eye_def)

lemma wf_eye: "wf_tensor (eye n)" by (simp add: wf_tensor_def eye_def list_all_iff)

lemma size0_mm: "size0 (mm a b) = size0 a" by (simp add: size0_def mm_def)

lemma ncols_mm: "ncols (mm a b) = ncols b" by (simp add: mm_def)

lemma wf_mm: "wf_tensor (mm a b)" by (simp add: wf_tensor_def mm_def list_all_iff)

lemma size0_diag_embed: "size0 (diag_embed v) = length v" by (simp add: size0_def diag_embed_def)

lemma ncols_diag_embed: "ncols (diag_embed v) = length v" by (simp add: diag_embed_def)

lemma wf_diag_embed: "wf_tensor (diag_embed v)" by (simp add: wf_tensor_def diag_embed_def list_all_iff)

lemma size0_relu: "size0 (relu t) = size0 t" by (simp add: size0_def relu_def)

lemma ncols_relu: "ncols (relu t) = ncols t" by (simp add: relu_def)

lemma wf_relu: "wf_tensor t \<Longrightarrow> wf_tensor (relu t)" by (simp add: wf_tensor_def relu_def list_all_iff)

lemma size0_ones_t: "size0 (ones_t n m) = n" by (simp add: size0_def ones_t_def)

lemma ncols_ones_t: "ncols (ones_t n m) = m" by (simp add: ones_t_def)

lemma size0_rand_t: "size0 (rand_t n m rnd) = n" by (simp add: size0_def rand_t_def)

lemma ncols_rand_t: "ncols (rand_t n m rnd) = m" by (simp add: rand_t_def)

lemma wf_rand_t: "wf_tensor (rand_t n m rnd)" by (simp add: wf_tensor_def rand_t_def list_all_iff)

lemma length_row_sums: "length (row_sums A) = size0 A" by (simp add: row_sums_def size0_def)

lemma wf_row_length: "wf_tensor t \<Longrightarrow> i < size0 t \<Longrightarrow> length (rws t ! i) = ncols t"
  by (simp add: wf_tensor_def size0_def list_all_length)

lemma entry_mm:
  "i < size0 a \<Longrightarrow> j < ncols b \<Longrightarrow> entry (mm a b) i j = dot (rws a ! i) (col b j)"
  by (simp add: entry_def mm_def size0_def)

lemma entry_diag_embed:
  "i < length v \<Longrightarrow> j < length v \<Longrightarrow>
   entry (diag_embed v) i j = (if i = j then v ! i else Fin 0)"
  by (simp add: entry_def diag_embed_def)

lemma col_ones_t: "j < m \<Longrightarrow> col (ones_t n m) j = replicate n (Fin 1)"
  by (simp add: col_def ones_t_def)

lemma length_diag: "length (diag t) = min (size0 t) (ncols t)" by (simp add: diag_def)

lemma diag_nth: "i < size0 t \<Longrightarrow> i < ncols t \<Longrightarrow> diag t ! i = entry t i i"
  by (simp add: diag_def)

lemma madd_eye_shape:
  "size0 (madd A (eye n)) = min (size0 A) n" "ncols (madd A (eye n)) = ncols A"
  by (simp_all add: madd_def size0_def eye_def)

lemma spec_D_neg_sqrt_shape:
  "size0 (spec_D_neg_sqrt A) = size0 A" "ncols (spec_D_neg_sqrt A) = size0 A"
  by (simp_all add: spec_D_neg_sqrt_def size0_diag_embed ncols_diag_embed length_row_sums)

lemma eye_row: "i < n \<Longrightarrow> rws (eye n) ! i = map (\<lambda>j. if i = j then Fin 1 else Fin 0) [0..<n]"
  by (simp add: eye_def)

lemma spec_forward_shape:
  "size0 (spec_forward A W X) = size0 A" "ncols (spec_forward A W X) = ncols W"
  "wf_tensor (spec_forward A W X)"
  by (simp_all add: spec_forward_def size0_relu ncols_relu size0_mm ncols_mm wf_relu wf_mm
      spec_D_neg_sqrt_shape)

lemma entry_pow_m05:
  "i < size0 t \<Longrightarrow> j < length (rws t ! i) \<Longrightarrow>
   entry (pow_m05 t) i j = pow_neg_half (entry t i j)"
  by (simp add: entry_def pow_m05_def size0_def)

lemma length_col: "length (col t j) = size0 t"
  by (simp add: col_def size0_def)


lemma diag_embed_replicate_one: "diag_embed (replicate n (Fin 1)) = eye n"
  by (simp add: diag_embed_def eye_def)

lemma scale_eye: "scale c (eye n) = diag_embed (replicate n (Fin c))"
  by (simp add: scale_def eye_def diag_embed_def)

lemma col_nth: "i < size0 t \<Longrightarrow> col t j ! i = rws t ! i ! j"
  by (simp add: col_def size0_def)

lemma col_eye: "j < n \<Longrightarrow> col (eye n) j = map (\<lambda>k. if k = j then Fin 1 else Fin 0) [0..<n]"
  by (simp add: col_def eye_def)

lemma scale_rows:
  "size0 P = n \<Longrightarrow> scale c P = \<lparr>ncols = ncols P, rws = map (\<lambda>i. map (fmul (Fin c)) (rws P ! i)) [0..<n]\<rparr>"
  by (auto simp: scale_def size0_def intro!: nth_equalityI)

lemma wf_scale_eye: "wf_tensor (scale c (eye n))"
  by (simp add: scale_eye wf_diag_embed)

subsection \<open>Finite and non-finite tensors\<close>

lemma all_fin_rand_t: "all_fin (rand_t n m rnd)" by (simp add: all_fin_def rand_t_def list_all_iff)

lemma col_fin:
  assumes "all_fin B" "wf_tensor B" "j < ncols B"
  shows "list_all is_fin (col B j)"
  using assms by (auto simp: col_def all_fin_def wf_tensor_def list_all_iff)

lemma all_fin_diag_embed: "list_all is_fin v \<Longrightarrow> all_fin (diag_embed v)"
  by (auto simp: all_fin_def diag_embed_def list_all_iff)

lemma all_fin_spec_D_neg_sqrt:
  "list_all gt0 (row_sums A) \<Longrightarrow> all_fin (spec_D_neg_sqrt A)"
  unfolding spec_D_neg_sqrt_def
  by (rule all_fin_diag_embed) (auto simp: list_all_iff pow_neg_half_fin)

lemma nonneg_or_nan_relu: "nonneg_or_nan (relu t)"
proof -
  have "ge0_or_nan (relu1 x)" for x by (cases x) (auto simp: ge0_or_nan_def)
  then show ?thesis by (simp add: nonneg_or_nan_def relu_def list_all_iff)
qed


lemma all_fin_scale_eye: "all_fin (scale c (eye n))"
  by (simp add: scale_eye all_fin_diag_embed list_all_iff)

subsection \<open>The steps of the construction\<close>

text \<open>
  What the statements of \<open>__init__\<close> compute for a square matrix: the diagonal of the
  element-wise power of a diagonal matrix, the diagonal of \<open>A \<cdot> ones\<close>, and \<open>A + eye\<close>.
\<close>

lemma diag_pow_diag_embed: "diag (pow_m05 (diag_embed v)) = map pow_neg_half v"
  by (rule nth_equalityI)
     (simp_all add: diag_def pow_m05_def diag_embed_def size0_def entry_def)

lemma diag_mm_ones:
  assumes "wf_tensor A"
  shows "diag (mm A (ones_t (ncols A) (ncols A))) = take (ncols A) (row_sums A)"
proof (rule nth_equalityI)
  show "length (diag (mm A (ones_t (ncols A) (ncols A)))) = length (take (ncols A) (row_sums A))"
    by (simp add: diag_def size0_mm ncols_mm ncols_ones_t length_row_sums)
next
  fix i assume "i < length (diag (mm A (ones_t (ncols A) (ncols A))))"
  then have i: "i < size0 A" "i < ncols A"
    by (simp_all add: diag_def size0_mm ncols_mm ncols_ones_t)
  have "entry (mm A (ones_t (ncols A) (ncols A))) i i
        = dot (rws A ! i) (replicate (ncols A) (Fin 1))"
    using i by (simp add: entry_mm ncols_ones_t col_ones_t)
  also have "\<dots> = fsum (rws A ! i)"
    using wf_row_length [OF assms i(1)] by (simp add: dot_def map2_fmul_ones)
  finally have e: "entry (mm A (ones_t (ncols A) (ncols A))) i i = fsum (rws A ! i)" .
  have "diag (mm A (ones_t (ncols A) (ncols A))) ! i = fsum (rws A ! i)"
    using i e by (simp add: diag_nth size0_mm ncols_mm ncols_ones_t)
  moreover have "take (ncols A) (row_sums A) ! i = fsum (rws A ! i)"
    using i by (simp add: row_sums_def size0_def)
  ultimately show "diag (mm A (ones_t (ncols A) (ncols A))) ! i = take (ncols A) (row_sums A) ! i"
    by simp
qed

lemma tensor_add_eye:
  assumes "wf_tensor A" "size0 A = ncols A"
  shows "tensor_add A (eye (size0 A)) = Inr (madd A (eye (size0 A)))"
proof -
  let ?n = "size0 A"
  have rows: "map (\<lambda>i. map (\<lambda>j.
                 fadd (entry A (bidx ?n i) (bidx ?n j))
                      (entry (eye ?n) (bidx ?n i) (bidx ?n j))) [0..<?n]) [0..<?n]
              = map2 (map2 fadd) (rws A) (rws (eye ?n))"
  proof (rule nth_equalityI)
    show "length (map (\<lambda>i. map (\<lambda>j.
                 fadd (entry A (bidx ?n i) (bidx ?n j))
                      (entry (eye ?n) (bidx ?n i) (bidx ?n j))) [0..<?n]) [0..<?n])
          = length (map2 (map2 fadd) (rws A) (rws (eye ?n)))"
      by (simp add: size0_def eye_def)
  next
    fix i assume "i < length (map (\<lambda>i. map (\<lambda>j.
                 fadd (entry A (bidx ?n i) (bidx ?n j))
                      (entry (eye ?n) (bidx ?n i) (bidx ?n j))) [0..<?n]) [0..<?n])"
    then have i: "i < ?n" by simp
    have len: "length (rws A ! i) = ?n"
      using wf_row_length [OF assms(1) i] assms(2) by simp
    have bi: "bidx ?n i = i" using i by (auto simp: bidx_def)
    have "map (\<lambda>j. fadd (entry A i (bidx ?n j)) (entry (eye ?n) i (bidx ?n j))) [0..<?n]
          = map2 fadd (rws A ! i) (rws (eye ?n) ! i)"
    proof (rule nth_equalityI)
      show "length (map (\<lambda>j. fadd (entry A i (bidx ?n j)) (entry (eye ?n) i (bidx ?n j))) [0..<?n])
            = length (map2 fadd (rws A ! i) (rws (eye ?n) ! i))"
        using i len by (simp add: eye_def)
    next
      fix j assume "j < length (map (\<lambda>j. fadd (entry A i (bidx ?n j))
                                     (entry (eye ?n) i (bidx ?n j))) [0..<?n])"
      then have j: "j < ?n" by simp
      have bj: "bidx ?n j = j" using j by (auto simp: bidx_def)
      show "map (\<lambda>j. fadd (entry A i (bidx ?n j)) (entry (eye ?n) i (bidx ?n j))) [0..<?n] ! j
            = map2 fadd (rws A ! i) (rws (eye ?n) ! i) ! j"
        using i j len bj by (simp add: entry_def eye_def)
    qed
    then show "map (\<lambda>i. map (\<lambda>j.
                 fadd (entry A (bidx ?n i) (bidx ?n j))
                      (entry (eye ?n) (bidx ?n i) (bidx ?n j))) [0..<?n]) [0..<?n] ! i
          = map2 (map2 fadd) (rws A) (rws (eye ?n)) ! i"
      using i bi by (simp add: size0_def eye_def)
  qed
  show ?thesis
    using assms(2) rows
    by (simp add: tensor_add_def bdim_def size0_eye ncols_eye madd_def)
qed

lemma row_sum_madd_eye:
  assumes "wf_tensor A" "size0 A = ncols A" "i < size0 A"
  shows "fsum (rws (madd A (eye (size0 A))) ! i) = fadd (fsum (rws A ! i)) (Fin 1)"
proof -
  have len: "length (rws A ! i) = size0 A"
    using wf_row_length [OF assms(1,3)] assms(2) by simp
  have "rws (madd A (eye (size0 A))) ! i = map2 fadd (rws A ! i) (rws (eye (size0 A)) ! i)"
    using assms(3) by (simp add: madd_def size0_def eye_def)
  then show ?thesis
    using len assms(3) by (simp add: fsum_map2_fadd eye_row fsum_unit_row)
qed

lemma row_sums_eye: "row_sums (eye n) = replicate n (Fin 1)"
  by (rule nth_equalityI) (simp_all add: row_sums_def eye_def fsum_unit_row)

lemma spec_D_neg_sqrt_eye: "spec_D_neg_sqrt (eye n) = eye n"
  by (simp add: spec_D_neg_sqrt_def row_sums_eye diag_embed_replicate_one)

lemma madd_eye_eye: "madd (eye n) (eye n) = scale 2 (eye n)"
  by (simp add: madd_def scale_def eye_def map2_same)

subsection \<open>Products with a diagonal matrix\<close>

lemma mm_diag_left:
  assumes "all_fin B" "wf_tensor B" "size0 B = length v"
  shows "mm (diag_embed v) B =
         \<lparr>ncols = ncols B, rws = map (\<lambda>i. map (fmul (v ! i)) (rws B ! i)) [0..<length v]\<rparr>"
proof -
  let ?n = "length v"
  have row: "map (\<lambda>j. dot (map (\<lambda>k. if i = k then v ! i else Fin 0) [0..<?n]) (col B j))
               [0..<ncols B] = map (fmul (v ! i)) (rws B ! i)" if i: "i < ?n" for i
  proof (rule nth_equalityI)
    have len: "length (rws B ! i) = ncols B"
      using wf_row_length [OF assms(2)] i assms(3) by simp
    show "length (map (\<lambda>j. dot (map (\<lambda>k. if i = k then v ! i else Fin 0) [0..<?n]) (col B j))
               [0..<ncols B]) = length (map (fmul (v ! i)) (rws B ! i))"
      using len by simp
    fix j assume "j < length (map (\<lambda>j. dot (map (\<lambda>k. if i = k then v ! i else Fin 0) [0..<?n])
               (col B j)) [0..<ncols B])"
    then have j: "j < ncols B" by simp
    have "dot (map (\<lambda>k. if i = k then v ! i else Fin 0) [0..<?n]) (col B j)
          = fmul (v ! i) (col B j ! i)"
      using i assms(3)
      by (intro dot_unit_left col_fin [OF assms(1,2) j]) (simp_all add: length_col)
    then show "map (\<lambda>j. dot (map (\<lambda>k. if i = k then v ! i else Fin 0) [0..<?n]) (col B j))
               [0..<ncols B] ! j = map (fmul (v ! i)) (rws B ! i) ! j"
      using i j len assms(3) by (simp add: col_nth)
  qed
  show ?thesis
    using row by (simp add: mm_def diag_embed_def)
qed

lemma mm_eye_left:
  assumes "all_fin B" "wf_tensor B" "size0 B = n"
  shows "mm (eye n) B = B"
proof -
  have "map (\<lambda>i. map (fmul (replicate n (Fin 1) ! i)) (rws B ! i)) [0..<n]
        = map (\<lambda>i. rws B ! i) [0..<n]"
    by (simp add: fmul_one_left cong: map_cong)
  also have "\<dots> = rws B"
    using assms(3) map_nth [of "rws B"] by (simp add: size0_def)
  finally show ?thesis
    using mm_diag_left [OF assms(1,2), of "replicate n (Fin 1)"] assms(3)
    by (simp add: diag_embed_replicate_one)
qed

lemma mm_eye_right:
  assumes "all_fin A" "wf_tensor A" "ncols A = n"
  shows "mm A (eye n) = A"
proof -
  have row: "map (\<lambda>j. dot r (col (eye n) j)) [0..<n] = r" if r: "r \<in> set (rws A)" for r
  proof (rule nth_equalityI)
    have len: "length r = n"
      using assms(2,3) r by (simp add: wf_tensor_def list_all_iff)
    have fin: "list_all is_fin r"
      using assms(1) r by (simp add: all_fin_def list_all_iff)
    show "length (map (\<lambda>j. dot r (col (eye n) j)) [0..<n]) = length r"
      using len by simp
    fix j assume "j < length (map (\<lambda>j. dot r (col (eye n) j)) [0..<n])"
    then have j: "j < n" by simp
    show "map (\<lambda>j. dot r (col (eye n) j)) [0..<n] ! j = r ! j"
      using j dot_unit_right [OF fin len j, of "Fin 1"]
      by (simp add: col_eye fmul_one_right)
  qed
  have "map (\<lambda>r. map (\<lambda>j. dot r (col (eye n) j)) [0..<n]) (rws A) = rws A"
    using row by (simp add: map_idI)
  then show ?thesis
    using assms(3) by (simp add: mm_def ncols_eye)
qed

lemma mm_scale_eye:
  assumes "wf_tensor P" "size0 P = N" "all_fin P"
  shows "mm (scale 2 (eye N)) P = scale 2 P"
proof -
  have a: "mm (diag_embed (replicate N (Fin 2))) P =
           \<lparr>ncols = ncols P,
            rws = map (\<lambda>i. map (fmul (replicate N (Fin 2) ! i)) (rws P ! i))
                    [0..<length (replicate N (Fin 2))]\<rparr>"
    by (rule mm_diag_left [OF assms(3,1)]) (simp add: assms(2))
  have b: "scale 2 P =
           \<lparr>ncols = ncols P, rws = map (\<lambda>i. map (fmul (Fin 2)) (rws P ! i)) [0..<N]\<rparr>"
    by (rule scale_rows [OF assms(2)])
  have c: "map (\<lambda>i. map (fmul (replicate N (Fin 2) ! i)) (rws P ! i)) [0..<N]
           = map (\<lambda>i. map (fmul (Fin 2)) (rws P ! i)) [0..<N]"
    by (rule map_cong) simp_all
  show ?thesis
    unfolding scale_eye a b by (simp add: c)
qed

subsection \<open>Outcome of the construction and of the forward pass\<close>

lemma init_square:
  assumes "wf_tensor A" "size0 A = ncols A" "input_dim = int (size0 A)" "0 \<le> output_dim"
  shows "init input_dim output_dim A rnd =
         Inr \<lparr>self_input_dim = input_dim, self_output_dim = output_dim, self_A = A,
              self_A_hat = madd A (eye (size0 A)),
              self_ones = ones_t (size0 A) (size0 A),
              self_D = diag_embed (row_sums A),
              self_D_neg_sqrt = spec_D_neg_sqrt A,
              self_W = rand_t (size0 A) (nat output_dim) rnd\<rparr>"
proof -
  have d: "diag (mm A (ones_t (size0 A) (size0 A))) = row_sums A"
    using diag_mm_ones [OF assms(1)] assms(2) by (simp add: length_row_sums)
  have ta: "tensor_add A (eye (size0 A)) = Inr (madd A (eye (size0 A)))"
    by (rule tensor_add_eye [OF assms(1,2)])
  have os: "ones input_dim input_dim = Inr (ones_t (size0 A) (size0 A))"
    using assms(3) by (simp add: ones_def)
  have m: "matmul A (ones_t (size0 A) (size0 A)) = Inr (mm A (ones_t (size0 A) (size0 A)))"
    using assms(2) by (simp add: matmul_def size0_ones_t)
  have r: "rand input_dim output_dim rnd = Inr (rand_t (size0 A) (nat output_dim) rnd)"
    using assms(3,4) by (simp add: rand_def)
  show ?thesis
    by (simp add: init_def ta os m r d diag_pow_diag_embed spec_D_neg_sqrt_def Let_def)
qed

lemma forward_shapes:
  assumes "size0 (self_A_hat L) = n" "ncols (self_A_hat L) = n"
    "size0 (self_D_neg_sqrt L) = n" "ncols (self_D_neg_sqrt L) = n"
    "size0 (self_W L) = k"
  shows "forward L X =
         (if ncols X \<noteq> k \<or> size0 X \<noteq> n then Inl ShapeError
          else Inr (relu (mm (mm (self_D_neg_sqrt L) (mm (self_A_hat L) (self_D_neg_sqrt L)))
                             (mm X (self_W L)))))"
  using assms by (auto simp: forward_def matmul_def size0_mm ncols_mm)

lemma init_shape_error:
  "(init input_dim output_dim A rnd = Inl ShapeError) =
     ((size0 A \<noteq> ncols A \<and> size0 A \<noteq> 1 \<and> ncols A \<noteq> 1)
      \<or> (0 \<le> input_dim \<and> input_dim \<noteq> int (ncols A)))"
  by (auto simp: init_def tensor_add_def bdim_def size0_eye ncols_eye ones_def matmul_def
      size0_ones_t rand_def Let_def split: option.splits if_splits)

lemma init_succeeds:
  "(\<exists>L. init input_dim output_dim A rnd = Inr L) =
     ((size0 A = ncols A \<or> size0 A = 1 \<or> ncols A = 1)
      \<and> input_dim = int (ncols A) \<and> 0 \<le> output_dim)"
  by (auto simp: init_def tensor_add_def bdim_def size0_eye ncols_eye ones_def matmul_def
      size0_ones_t rand_def Let_def split: option.splits if_splits)

subsection \<open>Calls on the store\<close>

text \<open>
  A library call leaves the object and every allocated tensor as they are and appends
  its result; so does \<open>forward\<close>, and the tensor it returns is the value of the
  forward computation on the tensors the fields and \<open>X\<close> refer to.
\<close>

lemma matmul_h_frame:
  assumes "matmul_h a b s = (r, s')"
  shows "obj s' = obj s \<and> (\<exists>new. cells s' = cells s @ new)"
  using assms by (auto simp: matmul_h_def alloc_def split: sum.splits)

lemma relu_h_frame:
  assumes "relu_h a s = (r, s')"
  shows "obj s' = obj s \<and> (\<exists>new. cells s' = cells s @ new)"
  using assms by (auto simp: relu_h_def alloc_def)

lemma forward_h_frame:
  assumes "forward_h x s = (r, s')"
  shows "obj s' = obj s \<and> (\<exists>new. cells s' = cells s @ new)"
proof -
  obtain r1 s1 where m1: "matmul_h (ref_A_hat (obj s)) (ref_D_neg_sqrt (obj s)) s = (r1, s1)"
    by (cases "matmul_h (ref_A_hat (obj s)) (ref_D_neg_sqrt (obj s)) s")
  note f1 = matmul_h_frame [OF m1]
  show ?thesis
  proof (cases r1)
    case (Inl e)
    then show ?thesis using assms m1 f1 by (simp add: forward_h_def)
  next
    case (Inr t1)
    obtain r2 s2 where m2: "matmul_h (ref_D_neg_sqrt (obj s)) t1 s1 = (r2, s2)"
      by (cases "matmul_h (ref_D_neg_sqrt (obj s)) t1 s1")
    note f2 = matmul_h_frame [OF m2]
    show ?thesis
    proof (cases r2)
      case (Inl e)
      then show ?thesis using assms m1 m2 f1 f2 \<open>r1 = Inr t1\<close>
        by (auto simp: forward_h_def)
    next
      case (Inr support_1)
      obtain r3 s3 where m3: "matmul_h x (ref_W (obj s2)) s2 = (r3, s3)"
        by (cases "matmul_h x (ref_W (obj s2)) s2")
      note f3 = matmul_h_frame [OF m3]
      show ?thesis
      proof (cases r3)
        case (Inl e)
        then show ?thesis using assms m1 m2 m3 f1 f2 f3 \<open>r1 = Inr t1\<close> \<open>r2 = Inr support_1\<close>
          by (auto simp: forward_h_def)
      next
        case (Inr t2)
        obtain r4 s4 where m4: "matmul_h support_1 t2 s3 = (r4, s4)"
          by (cases "matmul_h support_1 t2 s3")
        note f4 = matmul_h_frame [OF m4]
        show ?thesis
        proof (cases r4)
          case (Inl e)
          then show ?thesis
            using assms m1 m2 m3 m4 f1 f2 f3 f4 \<open>r1 = Inr t1\<close> \<open>r2 = Inr support_1\<close> \<open>r3 = Inr t2\<close>
            by (auto simp: forward_h_def)
        next
          case (Inr support_2)
          then have "relu_h support_2 s4 = (r, s')"
            using assms m1 m2 m3 m4 \<open>r1 = Inr t1\<close> \<open>r2 = Inr support_1\<close> \<open>r3 = Inr t2\<close>
            by (simp add: forward_h_def)
          from relu_h_frame [OF this] show ?thesis
            using f1 f2 f3 f4 by auto
        qed
      qed
    qed
  qed
qed

lemma forward_h_value:
  assumes "refs_ok s" "x < length (cells s)" "forward_h x s = (r, s')"
  shows "result_value s' r = forward (layer_of s) (cells s ! x)"
  using assms
  by (auto simp: forward_h_def matmul_h_def relu_h_def alloc_def forward_def layer_of_def
      result_value_def refs_ok_def nth_append split: sum.splits)

lemma layer_of_frame:
  assumes "refs_ok s" "obj s' = obj s" "cells s' = cells s @ new"
  shows "layer_of s' = layer_of s \<and> refs_ok s'"
  using assms by (auto simp: layer_of_def refs_ok_def nth_append)

lemma take_prefix_le:
  assumes "take (length a) b = a"
  shows "length a \<le> length b"
proof -
  have "length (take (length a) b) = length a" using assms by simp
  then show ?thesis by simp
qed

lemma take_prefix_trans:
  assumes "take (length a) b = a" "take (length b) c = b"
  shows "take (length a) c = a"
proof -
  have "take (length a) c = take (length a) (take (length b) c)"
    using take_prefix_le [OF assms(1)] by (simp add: min_def)
  then show ?thesis using assms by simp
qed

lemma forward_h_keeps:
  assumes "refs_ok s" "forward_h x s = (r, s')"
  shows "obj s' = obj s \<and> layer_of s' = layer_of s \<and> refs_ok s'
         \<and> take (length (cells s)) (cells s') = cells s"
proof -
  obtain new where n: "obj s' = obj s" "cells s' = cells s @ new"
    using forward_h_frame [OF assms(2)] by blast
  have "take (length (cells s)) (cells s') = cells s"
    by (simp add: n(2))
  then show ?thesis
    using n(1) layer_of_frame [OF assms(1) n] by blast
qed

lemma run_forward_h_keeps:
  assumes "refs_ok s" "run_forward_h xs s = (rs, s')"
  shows "obj s' = obj s \<and> layer_of s' = layer_of s \<and> refs_ok s'
         \<and> take (length (cells s)) (cells s') = cells s"
  using assms
proof (induction xs arbitrary: s rs)
  case Nil
  then show ?case by simp
next
  case (Cons x xs)
  obtain r s1 where f: "forward_h x s = (r, s1)" by (cases "forward_h x s")
  obtain rs1 where g: "run_forward_h xs s1 = (rs1, s')"
    using Cons.prems(2) f by (auto split: prod.splits)
  note k1 = forward_h_keeps [OF Cons.prems(1) f]
  have ok1: "refs_ok s1" using k1 by blast
  note k2 = Cons.IH [OF ok1 g]
  have p1: "take (length (cells s)) (cells s1) = cells s" using k1 by blast
  have p2: "take (length (cells s1)) (cells s') = cells s1" using k2 by blast
  have p: "take (length (cells s)) (cells s') = cells s"
    by (rule take_prefix_trans [OF p1 p2])
  have o: "obj s' = obj s" using k1 k2 by (elim conjE) (rule trans)
  have l: "layer_of s' = layer_of s" using k1 k2 by (elim conjE) (rule trans)
  have r: "refs_ok s'" using k2 by blast
  from o l r p show ?case by (intro conjI)
qed

lemma layer_of_store_of: "layer_of (store_of L Xs) = L"
  by (simp add: layer_of_def store_of_def)

lemma refs_ok_store_of: "refs_ok (store_of L Xs)"
  by (simp add: refs_ok_def store_of_def)

section \<open>The forward pass computes the normalized convolution\<close>

text \<open>
  Claim C1. For a square \<open>N\<times>N\<close> matrix \<open>A\<close>, \<open>input_dim = N\<close> and an \<open>N\<times>input_dim\<close>
  feature matrix \<open>X\<close>, the construction returns a layer whose \<open>A_hat\<close> is \<open>A + I\<close>, whose
  \<open>D_neg_sqrt\<close> is the diagonal matrix of the inverse square roots of the row sums of \<open>A\<close>,
  and \<open>forward(X)\<close> returns \<open>ReLU(S \<cdot> P)\<close> with \<open>S = D_neg_sqrt \<cdot> (A_hat \<cdot> D_neg_sqrt)\<close>
  and \<open>P = X \<cdot> W\<close>, \<open>W\<close> the stored weight matrix.
\<close>

theorem forward_is_normalized_convolution:
  assumes "wf_tensor A" "size0 A = N" "ncols A = N" "input_dim = int N" "0 \<le> output_dim"
    and "size0 X = N" "ncols X = N"
  shows "\<exists>L. init input_dim output_dim A rnd = Inr L
           \<and> self_A_hat L = madd A (eye N)
           \<and> self_D_neg_sqrt L = diag_embed (map pow_neg_half (row_sums A))
           \<and> forward L X = Inr (spec_forward A (self_W L) X)"
proof -
  let ?L = "\<lparr>self_input_dim = input_dim, self_output_dim = output_dim, self_A = A,
              self_A_hat = madd A (eye (size0 A)),
              self_ones = ones_t (size0 A) (size0 A),
              self_D = diag_embed (row_sums A),
              self_D_neg_sqrt = spec_D_neg_sqrt A,
              self_W = rand_t (size0 A) (nat output_dim) rnd\<rparr>"
  have i: "init input_dim output_dim A rnd = Inr ?L"
    using assms by (intro init_square) simp_all
  have f: "forward ?L X = Inr (spec_forward A (self_W ?L) X)"
    using assms(2,3,6,7)
    by (subst forward_shapes [where n = N and k = N])
       (simp_all add: madd_eye_shape spec_D_neg_sqrt_shape size0_rand_t spec_forward_def)
  show ?thesis
    using i f assms(2) by (simp add: spec_D_neg_sqrt_def)
qed

theorem forward_is_normalized_convolution_witness:
  "wf_tensor A_ex \<and> size0 A_ex = 3 \<and> ncols A_ex = 3 \<and> (0::int) \<le> 2
   \<and> size0 X_ex = 3 \<and> ncols X_ex = 3
   \<and> (\<exists>L. init 3 2 A_ex rnd_half = Inr L
           \<and> self_A_hat L = madd A_ex (eye 3)
           \<and> self_D_neg_sqrt L = diag_embed (map pow_neg_half (row_sums A_ex))
           \<and> forward L X_ex = Inr (spec_forward A_ex (self_W L) X_ex))"
proof -
  have h: "wf_tensor A_ex" "size0 A_ex = 3" "ncols A_ex = 3"
    by (simp_all add: A_ex_def wf_tensor_def size0_def)
  have x: "size0 X_ex = 3" "ncols X_ex = 3"
    by (simp_all add: X_ex_def size0_def)
  show ?thesis
    using h x forward_is_normalized_convolution [OF h _ _ x, of 3 2 rnd_half] by simp
qed

section \<open>The degree is the row sum of the adjacency matrix\<close>

text \<open>
  Claim C2. For a square \<open>N\<times>N\<close> matrix \<open>A\<close> and \<open>input_dim = N\<close>, the stored degree matrix
  \<open>D\<close> is the diagonal matrix of the row sums of \<open>A\<close>: its \<open>i\<close>-th diagonal entry is the sum
  of row \<open>i\<close> of \<open>A\<close>, and the diagonal of \<open>A \<cdot> ones\<close> that the code computes is that vector
  of row sums. The degree is taken from \<open>A\<close> and not from \<open>A_hat\<close>, whose row \<open>i\<close> sums to
  one more.
\<close>

theorem degree_is_row_sum_of_A:
  assumes "wf_tensor A" "size0 A = N" "ncols A = N" "input_dim = int N" "0 \<le> output_dim"
  shows "\<exists>L. init input_dim output_dim A rnd = Inr L
           \<and> self_D L = diag_embed (row_sums A)
           \<and> diag (mm A (self_ones L)) = row_sums A
           \<and> (\<forall>i<N. entry (self_D L) i i = fsum (rws A ! i)
                   \<and> fsum (rws (self_A_hat L) ! i) = fadd (fsum (rws A ! i)) (Fin 1))"
proof -
  have sq: "size0 A = ncols A" using assms(2,3) by simp
  have init: "init input_dim output_dim A rnd =
         Inr \<lparr>self_input_dim = input_dim, self_output_dim = output_dim, self_A = A,
              self_A_hat = madd A (eye (size0 A)),
              self_ones = ones_t (size0 A) (size0 A),
              self_D = diag_embed (row_sums A),
              self_D_neg_sqrt = spec_D_neg_sqrt A,
              self_W = rand_t (size0 A) (nat output_dim) rnd\<rparr>"
    using assms(2,4,5) by (intro init_square [OF assms(1) sq]) simp_all
  have d: "diag (mm A (ones_t (size0 A) (size0 A))) = row_sums A"
    using diag_mm_ones [OF assms(1)] sq by (simp add: length_row_sums)
  have e: "entry (diag_embed (row_sums A)) i i = fsum (rws A ! i)" if "i < N" for i
    using that assms(2)
    by (simp add: entry_diag_embed length_row_sums) (simp add: row_sums_def size0_def)
  have r: "fsum (rws (madd A (eye (size0 A))) ! i) = fadd (fsum (rws A ! i)) (Fin 1)"
    if "i < N" for i
    using that assms(2) by (intro row_sum_madd_eye [OF assms(1) sq]) simp
  show ?thesis
    using init d e r by simp
qed

theorem degree_is_row_sum_of_A_witness:
  "wf_tensor A_ex \<and> size0 A_ex = 3 \<and> ncols A_ex = 3 \<and> (0::int) \<le> 2
   \<and> (\<exists>L. init 3 2 A_ex rnd_half = Inr L
           \<and> self_D L = diag_embed [Fin 1, Fin 2, Fin 2]
           \<and> diag (mm A_ex (self_ones L)) = [Fin 1, Fin 2, Fin 2]
           \<and> entry (self_D L) 1 1 = Fin 2
           \<and> fsum (rws (self_A_hat L) ! 1) = Fin 3)"
proof -
  have h: "wf_tensor A_ex" "size0 A_ex = 3" "ncols A_ex = 3"
    by (simp_all add: A_ex_def wf_tensor_def size0_def)
  have r: "row_sums A_ex = [Fin 1, Fin 2, Fin 2]" "fsum (rws A_ex ! Suc 0) = Fin 2"
    by (simp_all add: A_ex_def row_sums_def)
  obtain L where L: "init 3 2 A_ex rnd_half = Inr L"
      "self_D L = diag_embed (row_sums A_ex)" "diag (mm A_ex (self_ones L)) = row_sums A_ex"
      "\<forall>i<3. entry (self_D L) i i = fsum (rws A_ex ! i)
           \<and> fsum (rws (self_A_hat L) ! i) = fadd (fsum (rws A_ex ! i)) (Fin 1)"
    using degree_is_row_sum_of_A [OF h, of 3 2 rnd_half] by auto
  have "entry (self_D L) 1 1 = Fin 2 \<and> fsum (rws (self_A_hat L) ! 1) = Fin 3"
    using L(4) r(2) by simp
  then show ?thesis
    using h L(1,2,3) r(1) by auto
qed

section \<open>Shape errors of the forward pass\<close>

text \<open>
  Claim C3. For a layer constructed from a square \<open>N\<times>N\<close> matrix with \<open>input_dim = N\<close>,
  \<open>forward(X)\<close> raises a shape error when the row count of \<open>X\<close> differs from \<open>N\<close> or its
  column count differs from \<open>input_dim\<close>, and returns the result of the forward
  computation, raising nothing, when both agree.
\<close>

theorem forward_shape_error_iff_shape_mismatch:
  assumes "wf_tensor A" "size0 A = N" "ncols A = N" "input_dim = int N" "0 \<le> output_dim"
  shows "\<exists>L. init input_dim output_dim A rnd = Inr L
           \<and> forward L X =
               (if size0 X \<noteq> N \<or> int (ncols X) \<noteq> input_dim then Inl ShapeError
                else Inr (spec_forward A (self_W L) X))"
proof -
  let ?L = "\<lparr>self_input_dim = input_dim, self_output_dim = output_dim, self_A = A,
              self_A_hat = madd A (eye (size0 A)),
              self_ones = ones_t (size0 A) (size0 A),
              self_D = diag_embed (row_sums A),
              self_D_neg_sqrt = spec_D_neg_sqrt A,
              self_W = rand_t (size0 A) (nat output_dim) rnd\<rparr>"
  have i: "init input_dim output_dim A rnd = Inr ?L"
    using assms by (intro init_square) simp_all
  have f: "forward ?L X =
            (if size0 X \<noteq> N \<or> int (ncols X) \<noteq> input_dim then Inl ShapeError
             else Inr (spec_forward A (self_W ?L) X))"
    using assms(2,3,4)
    by (subst forward_shapes [where n = N and k = N])
       (auto simp: madd_eye_shape spec_D_neg_sqrt_shape size0_rand_t spec_forward_def)
  show ?thesis using i f by blast
qed

theorem forward_shape_error_iff_shape_mismatch_witness:
  "wf_tensor A_ex \<and> size0 A_ex = 3 \<and> ncols A_ex = 3 \<and> (0::int) \<le> 2
   \<and> (\<exists>L. init 3 2 A_ex rnd_half = Inr L \<and> forward L X_short = Inl ShapeError)
   \<and> (\<exists>L. init 3 2 A_ex rnd_half = Inr L
           \<and> forward L X_ex = Inr (spec_forward A_ex (self_W L) X_ex))"
proof -
  have h: "wf_tensor A_ex" "size0 A_ex = 3" "ncols A_ex = 3"
    by (simp_all add: A_ex_def wf_tensor_def size0_def)
  have x: "size0 X_short = 2" "size0 X_ex = 3" "ncols X_ex = 3"
    by (simp_all add: X_short_def X_ex_def size0_def)
  show ?thesis
    using h forward_shape_error_iff_shape_mismatch [OF h, of 3 2 rnd_half X_short]
      forward_shape_error_iff_shape_mismatch [OF h, of 3 2 rnd_half X_ex]
    by (simp add: x)
qed

section \<open>Shape errors of the construction\<close>

text \<open>
  Claim C4, as stated: the construction raises a shape error whenever \<open>A\<close> is not square
  or \<open>input_dim\<close> differs from the row count of \<open>A\<close>. It does not: the sum
  \<open>A + eye(A.size(0))\<close> broadcasts a matrix with one column, so a \<open>2\<times>1\<close> matrix with
  \<open>input_dim = 1\<close> is accepted, and the layer holds a \<open>2\<times>2\<close> \<open>A_hat\<close> beside a \<open>1\<times>1\<close>
  \<open>D_neg_sqrt\<close>.
\<close>

theorem init_accepts_one_column_adjacency:
  "size0 A_col \<noteq> ncols A_col \<and> (1::int) \<noteq> int (size0 A_col)
   \<and> init 1 1 A_col rnd_half =
     Inr \<lparr>self_input_dim = 1, self_output_dim = 1, self_A = A_col,
          self_A_hat = \<lparr>ncols = 2, rws = [[Fin 2, Fin 1], [Fin 1, Fin 2]]\<rparr>,
          self_ones = \<lparr>ncols = 1, rws = [[Fin 1]]\<rparr>,
          self_D = \<lparr>ncols = 1, rws = [[Fin 1]]\<rparr>,
          self_D_neg_sqrt = \<lparr>ncols = 1, rws = [[Fin 1]]\<rparr>,
          self_W = \<lparr>ncols = 1, rws = [[Fin (1 / 2)]]\<rparr>\<rparr>"
  by (simp add: A_col_def rnd_half_def init_def tensor_add_def bdim_def bidx_def size0_def
      eye_def entry_def ones_def ones_t_def matmul_def mm_def dot_def col_def diag_def
      diag_embed_def pow_m05_def rand_def rand_t_def Let_def)

text \<open>
  Claim C4, amended. The construction raises a shape error exactly when \<open>A\<close> is neither
  square nor a single row nor a single column, or when \<open>input_dim\<close> is not negative and
  differs from the column count of \<open>A\<close>. It succeeds exactly when \<open>A\<close> is square or a
  single row or a single column, \<open>input_dim\<close> is the column count of \<open>A\<close> and \<open>output_dim\<close>
  is not negative; so it succeeds when \<open>A\<close> is square, \<open>input_dim\<close> is its row count and
  \<open>output_dim\<close> is not negative.
\<close>

theorem init_shape_error_and_success:
  "(init input_dim output_dim A rnd = Inl ShapeError) =
     ((size0 A \<noteq> ncols A \<and> size0 A \<noteq> 1 \<and> ncols A \<noteq> 1)
      \<or> (0 \<le> input_dim \<and> input_dim \<noteq> int (ncols A)))
   \<and> (\<exists>L. init input_dim output_dim A rnd = Inr L) =
     ((size0 A = ncols A \<or> size0 A = 1 \<or> ncols A = 1)
      \<and> input_dim = int (ncols A) \<and> 0 \<le> output_dim)"
  using init_shape_error [of input_dim output_dim A rnd]
    init_succeeds [of input_dim output_dim A rnd] by blast

theorem init_shape_error_and_success_witness:
  "init 3 2 X_short rnd_half = Inl ShapeError
   \<and> init 2 2 A_ex rnd_half = Inl ShapeError
   \<and> (\<exists>L. init 3 2 A_ex rnd_half = Inr L)"
proof -
  have h: "size0 A_ex = 3" "ncols A_ex = 3" "size0 X_short = 2" "ncols X_short = 3"
    by (simp_all add: A_ex_def X_short_def size0_def)
  show ?thesis
    using init_shape_error_and_success [of 3 2 X_short rnd_half]
      init_shape_error_and_success [of 2 2 A_ex rnd_half]
      init_shape_error_and_success [of 3 2 A_ex rnd_half]
    by (simp add: h)
qed

section \<open>Shape and sign of the output\<close>

text \<open>
  Claim C5, as stated: for every valid construction and every \<open>N\<times>input_dim\<close> feature
  matrix, every entry of the output is \<open>\<ge> 0\<close>. It is not: for the graph of one node
  without an edge the degree is 0, \<open>D_neg_sqrt\<close> holds \<open>+\<infinity>\<close>, and with the feature
  \<open>0\<close> the product \<open>\<infinity> \<cdot> 0\<close> is a not-a-number, which \<open>relu\<close> keeps and which is not
  \<open>\<ge> 0\<close>.
\<close>

theorem forward_output_nan_for_isolated_node:
  "init 1 1 A_iso rnd_half = Inr L_iso
   \<and> forward L_iso X_zero = Inr \<lparr>ncols = 1, rws = [[NaN]]\<rparr>
   \<and> \<not> ge0 NaN"
  by (simp add: A_iso_def L_iso_def X_zero_def rnd_half_def init_def tensor_add_def bdim_def
      bidx_def size0_def eye_def entry_def ones_def ones_t_def matmul_def mm_def dot_def
      col_def diag_def diag_embed_def pow_m05_def rand_def rand_t_def Let_def forward_def
      relu_def)

text \<open>
  Claim C5, amended. For a square \<open>N\<times>N\<close> matrix \<open>A\<close>, \<open>input_dim = N\<close>, an \<open>output_dim\<close>
  that is not negative and an \<open>N\<times>input_dim\<close> feature matrix \<open>X\<close>, \<open>forward(X)\<close> returns an
  \<open>N\<times>output_dim\<close> matrix in which every entry is \<open>\<ge> 0\<close> or a not-a-number.
\<close>

theorem forward_output_shape_and_sign:
  assumes "wf_tensor A" "size0 A = N" "ncols A = N" "input_dim = int N" "0 \<le> output_dim"
    and "size0 X = N" "ncols X = N"
  shows "\<exists>L H. init input_dim output_dim A rnd = Inr L \<and> forward L X = Inr H
           \<and> wf_tensor H \<and> size0 H = N \<and> ncols H = nat output_dim
           \<and> nonneg_or_nan H"
proof -
  let ?W = "rand_t (size0 A) (nat output_dim) rnd"
  let ?L = "\<lparr>self_input_dim = input_dim, self_output_dim = output_dim, self_A = A,
              self_A_hat = madd A (eye (size0 A)),
              self_ones = ones_t (size0 A) (size0 A),
              self_D = diag_embed (row_sums A),
              self_D_neg_sqrt = spec_D_neg_sqrt A,
              self_W = ?W\<rparr>"
  let ?H = "spec_forward A ?W X"
  have i: "init input_dim output_dim A rnd = Inr ?L"
    using assms by (intro init_square) simp_all
  have f: "forward ?L X = Inr ?H"
    using assms(2,3,6,7)
    by (subst forward_shapes [where n = N and k = N])
       (simp_all add: madd_eye_shape spec_D_neg_sqrt_shape size0_rand_t spec_forward_def)
  have sh: "wf_tensor ?H" "size0 ?H = N" "ncols ?H = nat output_dim"
    using assms(2) by (simp_all add: spec_forward_shape ncols_rand_t)
  have nn: "nonneg_or_nan ?H"
    by (simp add: spec_forward_def nonneg_or_nan_relu)
  show ?thesis
    using i f sh nn by blast
qed

theorem forward_output_shape_and_sign_witness:
  "wf_tensor A_ex \<and> size0 A_ex = 3 \<and> ncols A_ex = 3 \<and> (0::int) \<le> 2
   \<and> size0 X_ex = 3 \<and> ncols X_ex = 3
   \<and> (\<exists>L H. init 3 2 A_ex rnd_half = Inr L \<and> forward L X_ex = Inr H
           \<and> wf_tensor H \<and> size0 H = 3 \<and> ncols H = 2 \<and> nonneg_or_nan H)"
proof -
  have h: "wf_tensor A_ex" "size0 A_ex = 3" "ncols A_ex = 3"
    by (simp_all add: A_ex_def wf_tensor_def size0_def)
  have x: "size0 X_ex = 3" "ncols X_ex = 3"
    by (simp_all add: X_ex_def size0_def)
  show ?thesis
    using h x forward_output_shape_and_sign [OF h _ _ x, of 3 2 rnd_half] by simp
qed

section \<open>A node of degree zero\<close>




section \<open>The identity matrix as adjacency matrix\<close>

text \<open>
  Claim C7, as stated: with the \<open>N\<times>N\<close> identity matrix as \<open>A\<close>, \<open>forward(X)\<close> is
  \<open>ReLU(2 \<cdot> X \<cdot> W)\<close> for every \<open>N\<times>input_dim\<close> matrix \<open>X\<close>. For \<open>N = 2\<close> and a feature
  matrix with an infinite entry in its second row it is not: the product with \<open>2 \<cdot> I\<close>
  adds \<open>0 \<cdot> \<infinity>\<close>, a not-a-number, to the first row, where \<open>2 \<cdot> X \<cdot> W\<close> is 0.
\<close>

theorem identity_adjacency_infinite_feature:
  "init 2 1 (eye 2) rnd_half = Inr L_eye2
   \<and> forward L_eye2 X_inf = Inr \<lparr>ncols = 1, rws = [[NaN], [PInf]]\<rparr>
   \<and> relu (scale 2 (mm X_inf (self_W L_eye2))) = \<lparr>ncols = 1, rws = [[Fin 0], [PInf]]\<rparr>"
  by (simp add: L_eye2_def X_inf_def rnd_half_def init_def tensor_add_def bdim_def
      bidx_def size0_def eye_def entry_def ones_def ones_t_def matmul_def mm_def dot_def
      col_def diag_def diag_embed_def pow_m05_def rand_def rand_t_def Let_def forward_def
      relu_def scale_def numeral_2_eq_2)

text \<open>
  Claim C7, amended. With the \<open>N\<times>N\<close> identity matrix as \<open>A\<close> and \<open>input_dim = N\<close>, every
  row sum is 1, the stored \<open>D\<close> and \<open>D_neg_sqrt\<close> are the identity matrix, the stored
  \<open>A_hat\<close> is \<open>2 \<cdot> I\<close>, and for every \<open>N\<times>input_dim\<close> matrix \<open>X\<close>, \<open>forward(X)\<close> is
  \<open>ReLU((2 \<cdot> I) \<cdot> (X \<cdot> W))\<close>; that is \<open>ReLU(2 \<cdot> X \<cdot> W)\<close> whenever the product \<open>X \<cdot> W\<close>
  has no entry that is not finite, since \<open>(2 \<cdot> I) \<cdot> P = 2 \<cdot> P\<close> for every matrix \<open>P\<close> of
  \<open>N\<close> rows with finite entries.
\<close>

theorem identity_adjacency_doubles_projection:
  assumes "input_dim = int N" "0 \<le> output_dim" "size0 X = N" "ncols X = N"
  shows "\<exists>L. init input_dim output_dim (eye N) rnd = Inr L
           \<and> row_sums (eye N) = replicate N (Fin 1)
           \<and> self_D L = eye N
           \<and> self_D_neg_sqrt L = eye N
           \<and> self_A_hat L = scale 2 (eye N)
           \<and> self_W L = rand_t N (nat output_dim) rnd
           \<and> forward L X = Inr (relu (mm (scale 2 (eye N)) (mm X (self_W L))))
           \<and> (all_fin (mm X (self_W L))
                \<longrightarrow> forward L X = Inr (relu (scale 2 (mm X (self_W L)))))
           \<and> (\<forall>P. wf_tensor P \<and> size0 P = N \<and> all_fin P
                \<longrightarrow> mm (scale 2 (eye N)) P = scale 2 P)"
proof -
  let ?W = "rand_t N (nat output_dim) rnd"
  let ?L = "\<lparr>self_input_dim = input_dim, self_output_dim = output_dim, self_A = eye N,
              self_A_hat = scale 2 (eye N),
              self_ones = ones_t N N,
              self_D = eye N,
              self_D_neg_sqrt = eye N,
              self_W = ?W\<rparr>"
  let ?P = "mm X ?W"
  have init: "init input_dim output_dim (eye N) rnd = Inr ?L"
    using init_square [OF wf_eye, of N input_dim output_dim rnd] assms(1,2)
    by (simp add: size0_eye ncols_eye madd_eye_eye spec_D_neg_sqrt_eye row_sums_eye
        diag_embed_replicate_one)
  have f: "forward ?L X = Inr (relu (mm (mm (eye N) (mm (scale 2 (eye N)) (eye N))) ?P))"
    using assms(3,4)
    by (subst forward_shapes [where n = N and k = N])
       (simp_all add: size0_eye ncols_eye size0_rand_t scale_eye size0_diag_embed
         ncols_diag_embed)
  have m: "mm (scale 2 (eye N)) (eye N) = scale 2 (eye N)"
    by (intro mm_eye_right all_fin_scale_eye wf_scale_eye)
       (simp add: scale_eye ncols_diag_embed)
  have s: "mm (eye N) (scale 2 (eye N)) = scale 2 (eye N)"
    by (intro mm_eye_left all_fin_scale_eye wf_scale_eye)
       (simp add: scale_eye size0_diag_embed)
  have g: "forward ?L X = Inr (relu (mm (scale 2 (eye N)) ?P))"
    using f by (simp only: m s)
  have p: "mm (scale 2 (eye N)) ?P = scale 2 ?P" if finP: "all_fin ?P"
    using assms(3) by (intro mm_scale_eye [OF wf_mm _ finP]) (simp add: size0_mm)
  have q: "all_fin (mm X (self_W ?L))
             \<longrightarrow> forward ?L X = Inr (relu (scale 2 (mm X (self_W ?L))))"
  proof
    assume "all_fin (mm X (self_W ?L))"
    then have "all_fin ?P" by simp
    from p [OF this] g show "forward ?L X = Inr (relu (scale 2 (mm X (self_W ?L))))"
      by simp
  qed
  have u: "\<forall>P. wf_tensor P \<and> size0 P = N \<and> all_fin P
                \<longrightarrow> mm (scale 2 (eye N)) P = scale 2 P"
    using mm_scale_eye by blast
  have g': "forward ?L X = Inr (relu (mm (scale 2 (eye N)) (mm X (self_W ?L))))"
    using g by simp
  have r1: "row_sums (eye N) = replicate N (Fin 1)" by (rule row_sums_eye)
  have f1: "self_D ?L = eye N" "self_D_neg_sqrt ?L = eye N" "self_A_hat ?L = scale 2 (eye N)"
    "self_W ?L = rand_t N (nat output_dim) rnd"
    by simp_all
  from init r1 f1 g' q u
  have "init input_dim output_dim (eye N) rnd = Inr ?L
           \<and> row_sums (eye N) = replicate N (Fin 1)
           \<and> self_D ?L = eye N
           \<and> self_D_neg_sqrt ?L = eye N
           \<and> self_A_hat ?L = scale 2 (eye N)
           \<and> self_W ?L = rand_t N (nat output_dim) rnd
           \<and> forward ?L X = Inr (relu (mm (scale 2 (eye N)) (mm X (self_W ?L))))
           \<and> (all_fin (mm X (self_W ?L))
                \<longrightarrow> forward ?L X = Inr (relu (scale 2 (mm X (self_W ?L)))))
           \<and> (\<forall>P. wf_tensor P \<and> size0 P = N \<and> all_fin P
                \<longrightarrow> mm (scale 2 (eye N)) P = scale 2 P)"
    by (intro conjI)
  then show ?thesis by (rule exI [of _ ?L])
qed

theorem identity_adjacency_doubles_projection_witness:
  "(0::int) \<le> 2 \<and> size0 X_ex = 3 \<and> ncols X_ex = 3
   \<and> all_fin (mm X_ex (rand_t 3 2 rnd_half))
   \<and> (\<exists>L. init 3 2 (eye 3) rnd_half = Inr L
           \<and> row_sums (eye 3) = replicate 3 (Fin 1)
           \<and> self_D L = eye 3
           \<and> self_D_neg_sqrt L = eye 3
           \<and> self_A_hat L = scale 2 (eye 3)
           \<and> forward L X_ex = Inr (relu (scale 2 (mm X_ex (self_W L)))))"
proof -
  have x: "size0 X_ex = 3" "ncols X_ex = 3"
    by (simp_all add: X_ex_def size0_def)
  have fp: "all_fin (mm X_ex (rand_t 3 2 rnd_half))"
    by (simp add: all_fin_def mm_def dot_def col_def rand_t_def X_ex_def rnd_half_def
        numeral_2_eq_2 numeral_3_eq_3)
  have "\<exists>L. init 3 2 (eye 3) rnd_half = Inr L
           \<and> row_sums (eye 3) = replicate 3 (Fin 1)
           \<and> self_D L = eye 3
           \<and> self_D_neg_sqrt L = eye 3
           \<and> self_A_hat L = scale 2 (eye 3)
           \<and> self_W L = rand_t 3 (nat 2) rnd_half
           \<and> forward L X_ex = Inr (relu (mm (scale 2 (eye 3)) (mm X_ex (self_W L))))
           \<and> (all_fin (mm X_ex (self_W L))
                \<longrightarrow> forward L X_ex = Inr (relu (scale 2 (mm X_ex (self_W L)))))
           \<and> (\<forall>P. wf_tensor P \<and> size0 P = 3 \<and> all_fin P
                \<longrightarrow> mm (scale 2 (eye 3)) P = scale 2 P)"
    by (rule identity_adjacency_doubles_projection [OF _ _ x]) simp_all
  then obtain L where L: "init 3 2 (eye 3) rnd_half = Inr L"
      "row_sums (eye 3) = replicate 3 (Fin 1)" "self_D L = eye 3" "self_D_neg_sqrt L = eye 3"
      "self_A_hat L = scale 2 (eye 3)" "self_W L = rand_t 3 (nat 2) rnd_half"
      "all_fin (mm X_ex (self_W L))
         \<longrightarrow> forward L X_ex = Inr (relu (scale 2 (mm X_ex (self_W L))))"
    by blast
  have w: "self_W L = rand_t 3 2 rnd_half" using L(6) by simp
  have "forward L X_ex = Inr (relu (scale 2 (mm X_ex (self_W L))))"
    using L(7) fp by (simp only: w)
  with L(1-5) have "\<exists>L. init 3 2 (eye 3) rnd_half = Inr L
           \<and> row_sums (eye 3) = replicate 3 (Fin 1)
           \<and> self_D L = eye 3
           \<and> self_D_neg_sqrt L = eye 3
           \<and> self_A_hat L = scale 2 (eye 3)
           \<and> forward L X_ex = Inr (relu (scale 2 (mm X_ex (self_W L))))"
    by blast
  then show ?thesis
    using x fp by simp
qed

section \<open>Determinism and frame of the forward pass\<close>

text \<open>
  Claim C8. \<open>forward\<close> is deterministic: on one layer object, after a call with \<open>X\<close>
  and any number of further \<open>forward\<close> calls (nothing assigns the weights in between), a
  second call with the same \<open>X\<close> returns a tensor equal to the one the first call
  returned, or raises the same error. The second call runs in a store that the calls
  before it have extended; its result depends on the tensors of the fields and on \<open>X\<close>
  only.
\<close>

theorem forward_deterministic:
  assumes "refs_ok s" "x < length (cells s)"
    and "forward_h x s = (r1, s1)" "run_forward_h ys s1 = (rs, s2)"
    and "forward_h x s2 = (r2, s3)"
  shows "result_value s3 r2 = result_value s1 r1"
proof -
  note k1 = forward_h_keeps [OF assms(1,3)]
  have ok1: "refs_ok s1" using k1 by blast
  note k2 = run_forward_h_keeps [OF ok1 assms(4)]
  have ok2: "refs_ok s2" using k2 by blast
  have p1: "take (length (cells s)) (cells s1) = cells s" using k1 by blast
  have p2: "take (length (cells s1)) (cells s2) = cells s1" using k2 by blast
  have t: "take (length (cells s)) (cells s2) = cells s"
    by (rule take_prefix_trans [OF p1 p2])
  have x2: "x < length (cells s2)"
    using take_prefix_le [OF t] assms(2) by simp
  have "take (length (cells s)) (cells s2) ! x = cells s2 ! x"
    using assms(2) by (rule nth_take)
  then have xv: "cells s2 ! x = cells s ! x"
    by (simp only: t)
  have l2: "layer_of s2 = layer_of s" using k1 k2 by (elim conjE) (rule trans)
  have "result_value s3 r2 = forward (layer_of s2) (cells s2 ! x)"
    by (rule forward_h_value [OF ok2 x2 assms(5)])
  also have "\<dots> = forward (layer_of s) (cells s ! x)"
    by (simp only: l2 xv)
  also have "\<dots> = result_value s1 r1"
    by (rule forward_h_value [OF assms(1,2,3), symmetric])
  finally show ?thesis .
qed

theorem forward_deterministic_witness:
  "refs_ok s_iso \<and> (6::nat) < length (cells s_iso)
   \<and> result_value (snd (forward_h 6 s_iso)) (fst (forward_h 6 s_iso))
       = Inr \<lparr>ncols = 1, rws = [[Fin 0]]\<rparr>
   \<and> result_value
        (snd (forward_h 6 (snd (run_forward_h [7] (snd (forward_h 6 s_iso))))))
        (fst (forward_h 6 (snd (run_forward_h [7] (snd (forward_h 6 s_iso))))))
       = Inr \<lparr>ncols = 1, rws = [[Fin 0]]\<rparr>"
proof -
  have ok: "refs_ok s_iso" by (simp add: s_iso_def refs_ok_store_of)
  have x: "(6::nat) < length (cells s_iso)" by (simp add: s_iso_def store_of_def)
  have a: "forward_h 6 s_iso = (fst (forward_h 6 s_iso), snd (forward_h 6 s_iso))"
    by simp
  have b: "run_forward_h [7] (snd (forward_h 6 s_iso))
           = (fst (run_forward_h [7] (snd (forward_h 6 s_iso))),
              snd (run_forward_h [7] (snd (forward_h 6 s_iso))))"
    by simp
  have c: "forward_h 6 (snd (run_forward_h [7] (snd (forward_h 6 s_iso))))
           = (fst (forward_h 6 (snd (run_forward_h [7] (snd (forward_h 6 s_iso))))),
              snd (forward_h 6 (snd (run_forward_h [7] (snd (forward_h 6 s_iso))))))"
    by simp
  have v: "result_value (snd (forward_h 6 s_iso)) (fst (forward_h 6 s_iso))
           = Inr \<lparr>ncols = 1, rws = [[Fin 0]]\<rparr>"
    by (simp add: s_iso_def store_of_def forward_h_def matmul_h_def relu_h_def alloc_def
        result_value_def matmul_def mm_def dot_def col_def relu_def size0_def L_iso_def
        X_neg_def A_iso_def)
  from forward_deterministic [OF ok x a b c] v ok x show ?thesis by simp
qed

text \<open>
  Claim C9. \<open>forward\<close> assigns no field of the layer and writes into no tensor: after a
  call, and after any sequence of calls, the object holds the references it held before,
  every tensor allocated before is unchanged, and so \<open>A\<close>, \<open>A_hat\<close>, \<open>D\<close>,
  \<open>D_neg_sqrt\<close> and \<open>W\<close> are the tensors the construction stored.
\<close>

theorem forward_keeps_fields:
  assumes "refs_ok s" "run_forward_h xs s = (rs, s')"
  shows "obj s' = obj s \<and> layer_of s' = layer_of s
         \<and> take (length (cells s)) (cells s') = cells s"
  using run_forward_h_keeps [OF assms] by blast

theorem forward_keeps_fields_witness:
  "refs_ok s_iso
   \<and> init 1 1 A_iso rnd_half = Inr L_iso
   \<and> layer_of s_iso = L_iso
   \<and> obj (snd (run_forward_h [6, 7, 6] s_iso)) = obj s_iso
   \<and> layer_of (snd (run_forward_h [6, 7, 6] s_iso)) = L_iso
   \<and> take 8 (cells (snd (run_forward_h [6, 7, 6] s_iso))) = cells s_iso"
proof -
  have ok: "refs_ok s_iso" by (simp add: s_iso_def refs_ok_store_of)
  have l: "layer_of s_iso = L_iso" by (simp add: s_iso_def layer_of_store_of)
  have c: "init 1 1 A_iso rnd_half = Inr L_iso"
    by (simp add: A_iso_def L_iso_def rnd_half_def init_def tensor_add_def bdim_def
        bidx_def size0_def eye_def entry_def ones_def ones_t_def matmul_def mm_def dot_def
        col_def diag_def diag_embed_def pow_m05_def rand_def rand_t_def Let_def)
  have n: "length (cells s_iso) = 8" by (simp add: s_iso_def store_of_def)
  have r: "run_forward_h [6, 7, 6] s_iso
           = (fst (run_forward_h [6, 7, 6] s_iso), snd (run_forward_h [6, 7, 6] s_iso))"
    by simp
  show ?thesis
    using ok c l n forward_keeps_fields [OF ok r] by simp
qed

section \<open>The inverse square root of the degree matrix\<close>

text \<open>
  Claim C10. For a square \<open>N\<times>N\<close> matrix \<open>A\<close> with \<open>input_dim = N\<close> whose row sums are all
  \<open>> 0\<close>, the stored \<open>D_neg_sqrt\<close> is the diagonal matrix of the inverse square roots
  \<open>1 / sqrt d\<^sub>i\<close> of the stored degrees, with zero off the diagonal, and all its entries
  are finite. \<open>torch.pow(D, -0.5)\<close> has \<open>+\<infinity>\<close> at every place off the diagonal, where
  \<open>D\<close> is 0; taking the diagonal and embedding it drops them. \<open>forward\<close> reads the
  stored \<open>D_neg_sqrt\<close> only: its output is the forward computation on that diagonal
  matrix, so the values off the diagonal of the power are no part of any output.
\<close>

theorem D_neg_sqrt_is_finite_diagonal:
  assumes "wf_tensor A" "size0 A = N" "ncols A = N" "input_dim = int N" "0 \<le> output_dim"
    and "list_all gt0 (row_sums A)"
  shows "\<exists>L. init input_dim output_dim A rnd = Inr L
           \<and> self_D_neg_sqrt L = diag_embed (map pow_neg_half (row_sums A))
           \<and> all_fin (self_D_neg_sqrt L)
           \<and> (\<forall>i<N. \<forall>j<N.
                 entry (self_D_neg_sqrt L) i j =
                   (if i = j
                    then (case entry (self_D L) i i of Fin x \<Rightarrow> Fin (1 / sqrt x) | _ \<Rightarrow> Fin 0)
                    else Fin 0)
               \<and> entry (pow_m05 (self_D L)) i j =
                   (if i = j
                    then (case entry (self_D L) i i of Fin x \<Rightarrow> Fin (1 / sqrt x) | _ \<Rightarrow> Fin 0)
                    else PInf))
           \<and> (size0 X = N \<and> ncols X = N
                \<longrightarrow> forward L X =
                    Inr (relu (mm (mm (diag_embed (map pow_neg_half (row_sums A)))
                                      (mm (self_A_hat L)
                                          (diag_embed (map pow_neg_half (row_sums A)))))
                                  (mm X (self_W L)))))"
proof -
  let ?W = "rand_t (size0 A) (nat output_dim) rnd"
  let ?D = "diag_embed (row_sums A)"
  let ?L = "\<lparr>self_input_dim = input_dim, self_output_dim = output_dim, self_A = A,
              self_A_hat = madd A (eye (size0 A)),
              self_ones = ones_t (size0 A) (size0 A),
              self_D = ?D,
              self_D_neg_sqrt = spec_D_neg_sqrt A,
              self_W = ?W\<rparr>"
  have init: "init input_dim output_dim A rnd = Inr ?L"
    using assms by (intro init_square) simp_all
  have len: "length (row_sums A) = N"
    using assms(2) by (simp add: length_row_sums)
  have ent: "entry (spec_D_neg_sqrt A) i j =
               (if i = j then (case entry ?D i i of Fin x \<Rightarrow> Fin (1 / sqrt x) | _ \<Rightarrow> Fin 0)
                else Fin 0)
             \<and> entry (pow_m05 ?D) i j =
               (if i = j then (case entry ?D i i of Fin x \<Rightarrow> Fin (1 / sqrt x) | _ \<Rightarrow> Fin 0)
                else PInf)"
    if ij: "i < N" "j < N" for i j
  proof -
    have gi: "gt0 (row_sums A ! i)"
      using assms(6) ij(1) len by (simp add: list_all_length)
    have di: "entry ?D i i = row_sums A ! i"
      using ij(1) len by (simp add: entry_diag_embed)
    have rowlen: "length (rws ?D ! i) = N"
      using ij(1) len wf_row_length [OF wf_diag_embed, of i "row_sums A"]
      by (simp add: size0_diag_embed ncols_diag_embed)
    have a: "entry (spec_D_neg_sqrt A) i j = (if i = j then pow_neg_half (row_sums A ! i) else Fin 0)"
      using ij len by (simp add: spec_D_neg_sqrt_def entry_diag_embed)
    have b: "entry (pow_m05 ?D) i j = (if i = j then pow_neg_half (row_sums A ! i) else PInf)"
      using ij len rowlen by (simp add: entry_pow_m05 size0_diag_embed entry_diag_embed)
    show ?thesis
    proof (cases "i = j")
      case True
      then show ?thesis using a b pow_neg_half_gt0 [OF gi] di by simp
    next
      case False
      then show ?thesis using a b by simp
    qed
  qed
  have e: "\<forall>i<N. \<forall>j<N.
                 entry (self_D_neg_sqrt ?L) i j =
                   (if i = j
                    then (case entry (self_D ?L) i i of Fin x \<Rightarrow> Fin (1 / sqrt x) | _ \<Rightarrow> Fin 0)
                    else Fin 0)
               \<and> entry (pow_m05 (self_D ?L)) i j =
                   (if i = j
                    then (case entry (self_D ?L) i i of Fin x \<Rightarrow> Fin (1 / sqrt x) | _ \<Rightarrow> Fin 0)
                    else PInf)"
  proof (intro allI impI)
    fix i j assume "i < N" "j < N"
    from ent [OF this] show "entry (self_D_neg_sqrt ?L) i j =
                   (if i = j
                    then (case entry (self_D ?L) i i of Fin x \<Rightarrow> Fin (1 / sqrt x) | _ \<Rightarrow> Fin 0)
                    else Fin 0)
               \<and> entry (pow_m05 (self_D ?L)) i j =
                   (if i = j
                    then (case entry (self_D ?L) i i of Fin x \<Rightarrow> Fin (1 / sqrt x) | _ \<Rightarrow> Fin 0)
                    else PInf)"
      by (simp only: layer.simps)
  qed
  have d: "self_D_neg_sqrt ?L = diag_embed (map pow_neg_half (row_sums A))"
    by (simp add: spec_D_neg_sqrt_def)
  have fin': "all_fin (self_D_neg_sqrt ?L)"
    using all_fin_spec_D_neg_sqrt [OF assms(6)] by simp
  have out: "size0 X = N \<and> ncols X = N
                \<longrightarrow> forward ?L X =
                    Inr (relu (mm (mm (diag_embed (map pow_neg_half (row_sums A)))
                                      (mm (self_A_hat ?L)
                                          (diag_embed (map pow_neg_half (row_sums A)))))
                                  (mm X (self_W ?L))))"
  proof
    assume x: "size0 X = N \<and> ncols X = N"
    have f: "forward ?L X =
               Inr (relu (mm (mm (spec_D_neg_sqrt A)
                                 (mm (madd A (eye (size0 A))) (spec_D_neg_sqrt A)))
                             (mm X ?W)))"
      using assms(2,3) x
      by (subst forward_shapes [where n = N and k = N])
         (simp_all add: madd_eye_shape spec_D_neg_sqrt_shape size0_rand_t)
    then show "forward ?L X =
                    Inr (relu (mm (mm (diag_embed (map pow_neg_half (row_sums A)))
                                      (mm (self_A_hat ?L)
                                          (diag_embed (map pow_neg_half (row_sums A)))))
                                  (mm X (self_W ?L))))"
      by (simp add: spec_D_neg_sqrt_def)
  qed
  from init d fin' e out show ?thesis
    by (intro exI [of _ ?L] conjI)
qed

theorem D_neg_sqrt_is_finite_diagonal_witness:
  "wf_tensor A_ex \<and> size0 A_ex = 3 \<and> ncols A_ex = 3 \<and> (0::int) \<le> 2
   \<and> list_all gt0 (row_sums A_ex) \<and> size0 X_ex = 3 \<and> ncols X_ex = 3
   \<and> (\<exists>L. init 3 2 A_ex rnd_half = Inr L
           \<and> entry (self_D L) 1 1 = Fin 2
           \<and> entry (self_D_neg_sqrt L) 1 1 = Fin (1 / sqrt 2)
           \<and> entry (pow_m05 (self_D L)) 1 1 = Fin (1 / sqrt 2)
           \<and> entry (self_D_neg_sqrt L) 1 2 = Fin 0
           \<and> entry (pow_m05 (self_D L)) 1 2 = PInf
           \<and> all_fin (self_D_neg_sqrt L)
           \<and> forward L X_ex =
                Inr (relu (mm (mm (diag_embed (map pow_neg_half (row_sums A_ex)))
                                  (mm (self_A_hat L)
                                      (diag_embed (map pow_neg_half (row_sums A_ex)))))
                              (mm X_ex (self_W L)))))"
proof -
  have h: "wf_tensor A_ex" "size0 A_ex = 3" "ncols A_ex = 3"
    by (simp_all add: A_ex_def wf_tensor_def size0_def)
  have x: "size0 X_ex = 3" "ncols X_ex = 3"
    by (simp_all add: X_ex_def size0_def)
  have g: "list_all gt0 (row_sums A_ex)"
    by (simp add: A_ex_def row_sums_def)
  have r: "row_sums A_ex = [Fin 1, Fin 2, Fin 2]"
    by (simp add: A_ex_def row_sums_def)
  have "\<exists>L. init 3 2 A_ex rnd_half = Inr L
           \<and> self_D_neg_sqrt L = diag_embed (map pow_neg_half (row_sums A_ex))
           \<and> all_fin (self_D_neg_sqrt L)
           \<and> (\<forall>i<3. \<forall>j<3.
                 entry (self_D_neg_sqrt L) i j =
                   (if i = j
                    then (case entry (self_D L) i i of Fin x \<Rightarrow> Fin (1 / sqrt x) | _ \<Rightarrow> Fin 0)
                    else Fin 0)
               \<and> entry (pow_m05 (self_D L)) i j =
                   (if i = j
                    then (case entry (self_D L) i i of Fin x \<Rightarrow> Fin (1 / sqrt x) | _ \<Rightarrow> Fin 0)
                    else PInf))
           \<and> (size0 X_ex = 3 \<and> ncols X_ex = 3
                \<longrightarrow> forward L X_ex =
                    Inr (relu (mm (mm (diag_embed (map pow_neg_half (row_sums A_ex)))
                                      (mm (self_A_hat L)
                                          (diag_embed (map pow_neg_half (row_sums A_ex)))))
                                  (mm X_ex (self_W L)))))"
    by (rule D_neg_sqrt_is_finite_diagonal [OF h _ _ g]) simp_all
  then obtain L where L: "init 3 2 A_ex rnd_half = Inr L"
      "self_D_neg_sqrt L = diag_embed (map pow_neg_half (row_sums A_ex))"
      "all_fin (self_D_neg_sqrt L)"
      "\<forall>i<3. \<forall>j<3.
         entry (self_D_neg_sqrt L) i j =
           (if i = j
            then (case entry (self_D L) i i of Fin x \<Rightarrow> Fin (1 / sqrt x) | _ \<Rightarrow> Fin 0)
            else Fin 0)
         \<and> entry (pow_m05 (self_D L)) i j =
           (if i = j
            then (case entry (self_D L) i i of Fin x \<Rightarrow> Fin (1 / sqrt x) | _ \<Rightarrow> Fin 0)
            else PInf)"
      "size0 X_ex = 3 \<and> ncols X_ex = 3
         \<longrightarrow> forward L X_ex =
             Inr (relu (mm (mm (diag_embed (map pow_neg_half (row_sums A_ex)))
                               (mm (self_A_hat L)
                                   (diag_embed (map pow_neg_half (row_sums A_ex)))))
                           (mm X_ex (self_W L))))"
    by blast
  have o: "forward L X_ex =
             Inr (relu (mm (mm (diag_embed (map pow_neg_half (row_sums A_ex)))
                               (mm (self_A_hat L)
                                   (diag_embed (map pow_neg_half (row_sums A_ex)))))
                           (mm X_ex (self_W L))))"
    using L(5) x by blast
  have e11: "(1::nat) < 3" and e12: "(2::nat) < 3" by simp_all
  have dn11: "entry (self_D_neg_sqrt L) 1 1 = Fin (1 / sqrt 2)"
    unfolding L(2) r by (simp add: entry_def diag_embed_def powr_neg_half)
  have d11: "entry (self_D L) 1 1 = Fin 2"
    using L(4) [rule_format, OF e11 e11] dn11 by (cases "entry (self_D L) 1 1") simp_all
  have p11: "entry (pow_m05 (self_D L)) 1 1 = Fin (1 / sqrt 2)"
    using L(4) [rule_format, OF e11 e11] d11 by simp
  have d12: "entry (self_D_neg_sqrt L) 1 2 = Fin 0 \<and> entry (pow_m05 (self_D L)) 1 2 = PInf"
    using L(4) [rule_format, OF e11 e12] by simp
  from L(1,3) o d11 dn11 p11 d12 have "\<exists>L. init 3 2 A_ex rnd_half = Inr L
           \<and> entry (self_D L) 1 1 = Fin 2
           \<and> entry (self_D_neg_sqrt L) 1 1 = Fin (1 / sqrt 2)
           \<and> entry (pow_m05 (self_D L)) 1 1 = Fin (1 / sqrt 2)
           \<and> entry (self_D_neg_sqrt L) 1 2 = Fin 0
           \<and> entry (pow_m05 (self_D L)) 1 2 = PInf
           \<and> all_fin (self_D_neg_sqrt L)
           \<and> forward L X_ex =
                Inr (relu (mm (mm (diag_embed (map pow_neg_half (row_sums A_ex)))
                                  (mm (self_A_hat L)
                                      (diag_embed (map pow_neg_half (row_sums A_ex)))))
                              (mm X_ex (self_W L))))"
    by blast
  then show ?thesis
    using h x g by simp
qed

end
